theory Spec2Isabelle
  imports Main "HOL-Library.AList" "HOL-Library.Char_ord" "HOL-Library.Word"
begin

section \<open>Errors\<close>

text \<open>
  The plugin reports failures as values of the framework's \<open>errors.Error\<close>, built with
  \<open>errors.Default.New\<close>, \<open>errors.Default.Wrap\<close>, \<open>errors.BadInput.Wrap\<close> and
  \<open>errors.Convert\<close>. The error package itself is not among the sources, so the calls are
  kept as constructors: an error value records which call built it and from what. The
  remaining constructors are the errors of the Go standard library that \<open>url.Parse\<close>
  returns.
\<close>

datatype errtype = Default | BadInput

datatype error =
    New errtype string
  | Wrap errtype error string
  | Convert error
  | ErrorString string
  | EscapeError string
  | InvalidHostError string
  | InvalidPort string
  | url_Error string string error

section \<open>Package strings\<close>

text \<open>
  Go strings are byte sequences, as \<open>string\<close> is here; an index of \<open>-1\<close> is \<open>None\<close>.
  \<open>ToLower\<close> is the function on ASCII, which is all that a URL scheme contains.
\<close>

definition HasPrefix :: "string \<Rightarrow> string \<Rightarrow> bool" where
  "HasPrefix s p = (take (length p) s = p)"

definition HasSuffix :: "string \<Rightarrow> string \<Rightarrow> bool" where
  "HasSuffix s p = (length p \<le> length s \<and> drop (length s - length p) s = p)"

fun Index :: "string \<Rightarrow> string \<Rightarrow> nat option" where
  "Index [] sep = (if sep = [] then Some 0 else None)"
| "Index (c # s) sep =
     (if HasPrefix (c # s) sep then Some 0 else map_option Suc (Index s sep))"

fun LastIndex :: "string \<Rightarrow> string \<Rightarrow> nat option" where
  "LastIndex [] sep = (if sep = [] then Some 0 else None)"
| "LastIndex (c # s) sep =
     (case LastIndex s sep of
        Some i \<Rightarrow> Some (Suc i)
      | None \<Rightarrow> if HasPrefix (c # s) sep then Some 0 else None)"

definition Contains :: "string \<Rightarrow> string \<Rightarrow> bool" where
  "Contains s substr = (Index s substr \<noteq> None)"

definition Cut :: "string \<Rightarrow> string \<Rightarrow> string \<times> string \<times> bool" where
  "Cut s sep =
     (case Index s sep of
        Some i \<Rightarrow> (take i s, drop (i + length sep) s, True)
      | None \<Rightarrow> (s, [], False))"

definition ToLower :: "string \<Rightarrow> string" where
  "ToLower s =
     map (\<lambda>c. if CHR ''A'' \<le> c \<and> c \<le> CHR ''Z'' then char_of (of_char c + (32::nat)) else c) s"

section \<open>Package net/url\<close>

text \<open>
  \<open>getZentaoHomePage\<close> reads three fields of the URL that \<open>url.Parse\<close> returns. The parser
  belongs to the Go standard library, not to the repository. The functions of the plugin
  below take it as a parameter, so that what is proved of them holds of any parser; the
  definitions of this section follow net/url as of Go 1.20 and serve to run the plugin's
  code on concrete endpoints. Only the fields the plugin reads are kept.
\<close>

record URL =
  Scheme :: string
  Host :: string
  Path :: string

datatype encoding =
    encodePath | encodePathSegment | encodeHost | encodeZone
  | encodeUserPassword | encodeQueryComponent | encodeFragment

definition ishex :: "char \<Rightarrow> bool" where
  "ishex c = ((CHR ''0'' \<le> c \<and> c \<le> CHR ''9'') \<or> (CHR ''a'' \<le> c \<and> c \<le> CHR ''f'')
              \<or> (CHR ''A'' \<le> c \<and> c \<le> CHR ''F''))"

definition unhex :: "char \<Rightarrow> nat" where
  "unhex c =
     (if CHR ''0'' \<le> c \<and> c \<le> CHR ''9'' then of_char c - of_char CHR ''0''
      else if CHR ''a'' \<le> c \<and> c \<le> CHR ''f'' then of_char c - of_char CHR ''a'' + 10
      else if CHR ''A'' \<le> c \<and> c \<le> CHR ''F'' then of_char c - of_char CHR ''A'' + 10
      else 0)"

definition isalnum :: "char \<Rightarrow> bool" where
  "isalnum c = ((CHR ''a'' \<le> c \<and> c \<le> CHR ''z'') \<or> (CHR ''A'' \<le> c \<and> c \<le> CHR ''Z'')
                \<or> (CHR ''0'' \<le> c \<and> c \<le> CHR ''9''))"

text \<open>\<open>shouldEscape(c, encodeHost)\<close>, the only mode in which parsing calls it.\<close>

definition shouldEscape_host :: "char \<Rightarrow> bool" where
  "shouldEscape_host c =
     (if isalnum c then False
      else if c \<in> set ''!$&'' \<or> c = CHR 0x27 \<or> c \<in> set ''()*+,;=:[]<>'' \<or> c = CHR 0x22 then False
      else if c \<in> set ''-_.~'' then False
      else True)"

fun unescape :: "string \<Rightarrow> encoding \<Rightarrow> error + string" where
  "unescape [] mode = Inr []"
| "unescape (c # s) mode =
     (if c = CHR ''%'' then
        (case s of
           a # b # rest \<Rightarrow>
             if ishex a \<and> ishex b then
               (if mode = encodeHost \<and> unhex a < 8 \<and> [a, b] \<noteq> ''25''
                then Inl (EscapeError [c, a, b])
                else if mode = encodeZone \<and> [a, b] \<noteq> ''25''
                        \<and> char_of (unhex a * 16 + unhex b) \<noteq> CHR '' ''
                        \<and> shouldEscape_host (char_of (unhex a * 16 + unhex b))
                then Inl (EscapeError [c, a, b])
                else (case unescape rest mode of
                        Inl err \<Rightarrow> Inl err
                      | Inr t \<Rightarrow> Inr (char_of (unhex a * 16 + unhex b) # t)))
             else Inl (EscapeError (take 3 (c # s)))
         | _ \<Rightarrow> Inl (EscapeError (take 3 (c # s))))
      else if c = CHR ''+'' then
        (case unescape s mode of
           Inl err \<Rightarrow> Inl err
         | Inr t \<Rightarrow> Inr ((if mode = encodeQueryComponent then CHR '' '' else c) # t))
      else if (mode = encodeHost \<or> mode = encodeZone) \<and> c < CHR 0x80 \<and> shouldEscape_host c
      then Inl (InvalidHostError [c])
      else (case unescape s mode of Inl err \<Rightarrow> Inl err | Inr t \<Rightarrow> Inr (c # t)))"

definition stringContainsCTLByte :: "string \<Rightarrow> bool" where
  "stringContainsCTLByte s = list_ex (\<lambda>b. b < CHR '' '' \<or> b = CHR 0x7F) s"

function getScheme_from :: "string \<Rightarrow> nat \<Rightarrow> error + string \<times> string" where
  "getScheme_from rawURL i =
     (if i < length rawURL then
        (let c = rawURL ! i in
         if (CHR ''a'' \<le> c \<and> c \<le> CHR ''z'') \<or> (CHR ''A'' \<le> c \<and> c \<le> CHR ''Z'')
         then getScheme_from rawURL (i + 1)
         else if (CHR ''0'' \<le> c \<and> c \<le> CHR ''9'') \<or> c = CHR ''+'' \<or> c = CHR ''-'' \<or> c = CHR ''.''
         then (if i = 0 then Inr ([], rawURL) else getScheme_from rawURL (i + 1))
         else if c = CHR '':''
         then (if i = 0 then Inl (ErrorString ''missing protocol scheme'')
               else Inr (take i rawURL, drop (i + 1) rawURL))
         else Inr ([], rawURL))
      else Inr ([], rawURL))"
  by pat_completeness auto
termination
  by (relation "measure (\<lambda>(rawURL, i). length rawURL - i)") auto

definition getScheme :: "string \<Rightarrow> error + string \<times> string" where
  "getScheme rawURL = getScheme_from rawURL 0"

definition validOptionalPort :: "string \<Rightarrow> bool" where
  "validOptionalPort port =
     (case port of
        [] \<Rightarrow> True
      | c # ds \<Rightarrow> c = CHR '':'' \<and> list_all (\<lambda>b. CHR ''0'' \<le> b \<and> b \<le> CHR ''9'') ds)"

definition parseHost :: "string \<Rightarrow> error + string" where
  "parseHost host =
     (if HasPrefix host ''['' then
        (case LastIndex host '']'' of
           None \<Rightarrow> Inl (ErrorString ''missing ']' in host'')
         | Some i \<Rightarrow>
             if \<not> validOptionalPort (drop (i + 1) host) then Inl (InvalidPort (drop (i + 1) host))
             else (case Index (take i host) ''%25'' of
                     Some zone \<Rightarrow>
                       (case unescape (take zone host) encodeHost of
                          Inl err \<Rightarrow> Inl err
                        | Inr host1 \<Rightarrow>
                       (case unescape (drop zone (take i host)) encodeZone of
                          Inl err \<Rightarrow> Inl err
                        | Inr host2 \<Rightarrow>
                       (case unescape (drop i host) encodeHost of
                          Inl err \<Rightarrow> Inl err
                        | Inr host3 \<Rightarrow> Inr (host1 @ host2 @ host3))))
                   | None \<Rightarrow> unescape host encodeHost))
      else
        (case LastIndex host '':'' of
           Some i \<Rightarrow>
             if \<not> validOptionalPort (drop i host) then Inl (InvalidPort (drop i host))
             else unescape host encodeHost
         | None \<Rightarrow> unescape host encodeHost))"

definition validUserinfo :: "string \<Rightarrow> bool" where
  "validUserinfo s =
     list_all (\<lambda>r. isalnum r \<or> r \<in> set ''-._:~!$&'' \<or> r = CHR 0x27 \<or> r \<in> set ''()*+,;=%@'') s"

text \<open>\<open>parseAuthority\<close> also returns the user information, which the plugin never reads.\<close>

definition parseAuthority :: "string \<Rightarrow> error + string" where
  "parseAuthority authority =
     (case LastIndex authority ''@'' of
        None \<Rightarrow> parseHost authority
      | Some i \<Rightarrow>
          (case parseHost (drop (i + 1) authority) of
             Inl err \<Rightarrow> Inl err
           | Inr host \<Rightarrow>
               (let userinfo = take i authority in
                if \<not> validUserinfo userinfo then Inl (ErrorString ''net/url: invalid userinfo'')
                else if \<not> Contains userinfo '':'' then
                  (case unescape userinfo encodeUserPassword of
                     Inl err \<Rightarrow> Inl err
                   | Inr _ \<Rightarrow> Inr host)
                else
                  (case Cut userinfo '':'' of (username, password, _) \<Rightarrow>
                    (case unescape username encodeUserPassword of
                       Inl err \<Rightarrow> Inl err
                     | Inr _ \<Rightarrow>
                    (case unescape password encodeUserPassword of
                       Inl err \<Rightarrow> Inl err
                     | Inr _ \<Rightarrow> Inr host))))))"

definition setPath :: "URL \<Rightarrow> string \<Rightarrow> error + URL" where
  "setPath u p = (case unescape p encodePath of Inl err \<Rightarrow> Inl err | Inr path \<Rightarrow> Inr (u\<lparr>Path := path\<rparr>))"

definition parse :: "string \<Rightarrow> bool \<Rightarrow> error + URL" where
  "parse rawURL viaRequest =
     (if stringContainsCTLByte rawURL
      then Inl (ErrorString ''net/url: invalid control character in URL'')
      else if rawURL = [] \<and> viaRequest then Inl (ErrorString ''empty url'')
      else if rawURL = ''*'' then Inr \<lparr>Scheme = [], Host = [], Path = ''*''\<rparr>
      else
        (case getScheme rawURL of
           Inl err \<Rightarrow> Inl err
         | Inr (scheme0, rest0) \<Rightarrow>
            (let scheme = ToLower scheme0;
                 rest = (if HasSuffix rest0 ''?'' \<and> count_list rest0 CHR ''?'' = 1
                         then butlast rest0 else fst (Cut rest0 ''?''))
             in
             if \<not> HasPrefix rest ''/'' \<and> scheme \<noteq> [] then Inr \<lparr>Scheme = scheme, Host = [], Path = []\<rparr>
             else if \<not> HasPrefix rest ''/'' \<and> viaRequest then Inl (ErrorString ''invalid URI for request'')
             else if \<not> HasPrefix rest ''/'' \<and> Contains (fst (Cut rest ''/'')) '':''
             then Inl (ErrorString ''first path segment in URL cannot contain colon'')
             else if (if scheme = [] then \<not> viaRequest \<and> \<not> HasPrefix rest ''///'' else True)
                     \<and> HasPrefix rest ''//''
             then
               (let authority0 = drop 2 rest;
                    authority = (case Index authority0 ''/'' of Some i \<Rightarrow> take i authority0 | None \<Rightarrow> authority0);
                    rest' = (case Index authority0 ''/'' of Some i \<Rightarrow> drop i authority0 | None \<Rightarrow> [])
                in case parseAuthority authority of
                     Inl err \<Rightarrow> Inl err
                   | Inr host \<Rightarrow> setPath \<lparr>Scheme = scheme, Host = host, Path = []\<rparr> rest')
             else setPath \<lparr>Scheme = scheme, Host = [], Path = []\<rparr> rest)))"

definition url_Parse :: "string \<Rightarrow> error + URL" where
  "url_Parse rawURL =
     (case Cut rawURL ''#'' of (u, frag, _) \<Rightarrow>
        (case parse u False of
           Inl err \<Rightarrow> Inl (url_Error ''parse'' u err)
         | Inr url \<Rightarrow>
             if frag = [] then Inr url
             else (case unescape frag encodeFragment of
                     Inl err \<Rightarrow> Inl (url_Error ''parse'' rawURL err)
                   | Inr _ \<Rightarrow> Inr url)))"

section \<open>Home page of a Zentao installation\<close>

text \<open>
  \<open>getZentaoHomePage\<close> of impl.go. \<open>fmt.Sprintf("%s://%s%s", ...)\<close> of three strings is
  their concatenation around the separator.
\<close>

definition getZentaoHomePage :: "(string \<Rightarrow> error + URL) \<Rightarrow> string \<Rightarrow> error + string" where
  "getZentaoHomePage urlParse endpoint =
     (if endpoint = [] then Inl (New Default ''empty endpoint'')
      else
        (case urlParse endpoint of
           Inl err \<Rightarrow> Inl err
         | Inr endpointURL \<Rightarrow>
             (let protocol = Scheme endpointURL;
                  host = Host endpointURL;
                  zentaoPath = fst (Cut (Path endpointURL) ''/api.php/v1'')
              in Inr (protocol @ ''://'' @ host @ zentaoPath))))"

section \<open>Data of the Zentao plugin\<close>

text \<open>
  The connection row, with the fields \<open>PrepareTaskData\<close> reads. \<open>DbIdleConns\<close> and
  \<open>DbMaxConns\<close> are Go \<open>int\<close>s that are only compared with zero and copied.
\<close>

record ZentaoConnection =
  Endpoint :: string
  DbUrl :: string
  DbLoggingLevel :: string
  DbIdleConns :: int
  DbMaxConns :: int

text \<open>
  The decoded options. The scope configuration is a row the plugin passes on without
  looking inside, hence a type parameter; a nil pointer is \<open>None\<close>.
\<close>

record 'sc ZentaoOptions =
  ConnectionId :: "64 word"
  ScopeConfigId :: "64 word"
  ScopeConfig :: "'sc option"

text \<open>Of the asynchronous API client the plugin reads the endpoint only.\<close>

record ApiAsyncClient =
  GetEndpoint :: string

text \<open>A viper configuration: the settings stored with \<open>v.Set(key, value)\<close>, in the order written.\<close>

datatype setting = StringValue string | IntValue int

type_synonym viper = "(string \<times> setting) list"

definition viper_New :: viper where
  "viper_New = []"

definition viper_Set :: "string \<Rightarrow> setting \<Rightarrow> viper \<Rightarrow> viper" where
  "viper_Set key x v = AList.update key x v"

text \<open>\<open>tasks.NewAccountCache(dal, connectionId)\<close>: a fresh cache bound to the connection id.\<close>

datatype AccountCache = NewAccountCache "64 word"

text \<open>
  The task data. \<open>RemoteDb\<close> holds the handle \<open>dalgorm.NewDalgorm(rgorm)\<close> of the mirror
  database, \<open>None\<close> while the field is nil; handles are a type parameter.
\<close>

record ('sc, 'db) ZentaoTaskData =
  Options :: "'sc ZentaoOptions"
  ApiClient :: "ApiAsyncClient option"
  Stories :: "64 word set"
  Tasks :: "64 word set"
  Bugs :: "64 word set"
  AccountCache :: AccountCache
  RemoteDb :: "'db option"
  HomePageURL :: string

section \<open>The surroundings of a run\<close>

text \<open>
  \<open>PrepareTaskData\<close> calls functions that are outside impl.go: the option decoder and the
  API client constructor of package tasks, the connection helper, the task context's sync
  policy, store and configuration, \<open>runner.NewGormDb\<close> and \<open>url.Parse\<close>. A run is
  described by what each of them answers. \<open>DalFirst\<close> answers with the pointer it leaves
  in \<open>op.ScopeConfig\<close> and the error it returns.
\<close>

record ('o, 'sc, 'db) TaskContext =
  DecodeAndValidateTaskOptions :: "'o \<Rightarrow> error + 'sc ZentaoOptions"
  FirstById :: "64 word \<Rightarrow> error + ZentaoConnection"
  SkipCollectors :: bool
  NewZentaoApiClient :: "ZentaoConnection \<Rightarrow> error + ApiAsyncClient"
  DalFirst :: "64 word \<Rightarrow> 'sc option \<times> error option"
  IsErrorNotFound :: "error \<Rightarrow> bool"
  GetConfig :: "string \<Rightarrow> string"
  GetInt :: "string \<Rightarrow> int"
  NewGormDb :: "viper \<Rightarrow> error + 'db"
  UrlParse :: "string \<Rightarrow> error + URL"

text \<open>The calls that reach the store, the network or the mirror database, as a run makes them.\<close>

datatype call =
    CallFirstById "64 word"
  | CallNewZentaoApiClient ZentaoConnection
  | CallDalFirst "64 word"
  | CallNewGormDb viper

section \<open>PrepareTaskData\<close>

text \<open>Lines 189 to 197: the API client, unless collectors are skipped.\<close>

definition newApiClient ::
  "('o, 'sc, 'db) TaskContext \<Rightarrow> ZentaoConnection \<Rightarrow> call list \<times> (error + ApiAsyncClient option)" where
  "newApiClient taskCtx connection =
     (if \<not> SkipCollectors taskCtx then
        (case NewZentaoApiClient taskCtx connection of
           Inl err \<Rightarrow>
             ([CallNewZentaoApiClient connection],
              Inl (Wrap Default err ''unable to get Zentao API client instance: %v''))
         | Inr newApiClient \<Rightarrow> ([CallNewZentaoApiClient connection], Inr (Some newApiClient)))
      else ([], Inr None))"

text \<open>Lines 199 to 204: the scope configuration, when the options name it by id only.\<close>

definition loadScopeConfig ::
  "('o, 'sc, 'db) TaskContext \<Rightarrow> 'sc ZentaoOptions \<Rightarrow> call list \<times> (error + 'sc ZentaoOptions)" where
  "loadScopeConfig taskCtx op =
     (if ScopeConfig op = None \<and> ScopeConfigId op \<noteq> 0 then
        (case DalFirst taskCtx (ScopeConfigId op) of (loaded, err) \<Rightarrow>
           (case err of
              Some e \<Rightarrow>
                if IsErrorNotFound taskCtx e
                then ([CallDalFirst (ScopeConfigId op)],
                      Inl (Wrap BadInput e ''fail to load scope config from database''))
                else ([CallDalFirst (ScopeConfigId op)], Inr (op\<lparr>ScopeConfig := loaded\<rparr>))
            | None \<Rightarrow> ([CallDalFirst (ScopeConfigId op)], Inr (op\<lparr>ScopeConfig := loaded\<rparr>))))
      else ([], Inr op))"

text \<open>Lines 217 to 227: the settings the connection leaves unset are taken from the configuration.\<close>

definition withDbDefaults ::
  "('o, 'sc, 'db) TaskContext \<Rightarrow> ZentaoConnection \<Rightarrow> ZentaoConnection" where
  "withDbDefaults taskCtx connection =
     (let c1 = (if DbLoggingLevel connection = []
                then connection\<lparr>DbLoggingLevel := GetConfig taskCtx ''DB_LOGGING_LEVEL''\<rparr>
                else connection);
          c2 = (if DbIdleConns c1 = 0 then c1\<lparr>DbIdleConns := GetInt taskCtx ''DB_IDLE_CONNS''\<rparr> else c1);
          c3 = (if DbMaxConns c2 = 0 then c2\<lparr>DbMaxConns := GetInt taskCtx ''DB_MAX_CONNS''\<rparr> else c2)
      in c3)"

text \<open>Lines 229 to 233: the configuration handed to \<open>runner.NewGormDb\<close>.\<close>

definition remoteDbConfig :: "ZentaoConnection \<Rightarrow> viper" where
  "remoteDbConfig connection =
     viper_Set ''DbMaxConns'' (IntValue (DbMaxConns connection))
       (viper_Set ''DB_IDLE_CONNS'' (IntValue (DbIdleConns connection))
         (viper_Set ''DB_LOGGING_LEVEL'' (StringValue (DbLoggingLevel connection))
           (viper_Set ''DB_URL'' (StringValue (DbUrl connection)) viper_New)))"

text \<open>Lines 215 to 242: the mirror database, when collectors run and the connection has a \<open>DbUrl\<close>.\<close>

definition openRemoteDb ::
  "('o, 'sc, 'db) TaskContext \<Rightarrow> ZentaoConnection \<Rightarrow> call list \<times> (error + 'db option)" where
  "openRemoteDb taskCtx connection =
     (if \<not> SkipCollectors taskCtx then
        (if DbUrl connection \<noteq> [] then
           (let connection' = withDbDefaults taskCtx connection;
                v = remoteDbConfig connection'
            in case NewGormDb taskCtx v of
                 Inl err \<Rightarrow>
                   ([CallNewGormDb v],
                    Inl (Wrap Default err
                          (''failed to connect to the zentao remote databases '' @ DbUrl connection')))
               | Inr rgorm \<Rightarrow> ([CallNewGormDb v], Inr (Some rgorm)))
         else ([], Inr None))
      else ([], Inr None))"

text \<open>
  Lines 206 to 213 and 244 to 254: the task data and its home page. The endpoint is the API
  client's when there is a client, the connection's otherwise.
\<close>

definition finishTaskData ::
  "('o, 'sc, 'db) TaskContext \<Rightarrow> ZentaoConnection \<Rightarrow> 'sc ZentaoOptions \<Rightarrow> ApiAsyncClient option
     \<Rightarrow> 'db option \<Rightarrow> ('sc, 'db) ZentaoTaskData option \<times> error option" where
  "finishTaskData taskCtx connection op apiClient remoteDb =
     (let data = \<lparr>Options = op, ApiClient = apiClient, Stories = {}, Tasks = {}, Bugs = {},
                  AccountCache = NewAccountCache (ConnectionId op), RemoteDb = remoteDb,
                  HomePageURL = []\<rparr>;
          endpoint = (case ApiClient data of
                        Some client \<Rightarrow> GetEndpoint client
                      | None \<Rightarrow> Endpoint connection)
      in case getZentaoHomePage (UrlParse taskCtx) endpoint of
           Inl err \<Rightarrow> (Some data, Some (Convert err))
         | Inr homepage \<Rightarrow> (Some (data\<lparr>HomePageURL := homepage\<rparr>), None))"

text \<open>
  The whole function: the calls made, the data returned (\<open>None\<close> for nil) and the error
  returned (\<open>None\<close> for nil). Go returns both values, and both can be present.
\<close>

definition PrepareTaskData ::
  "('o, 'sc, 'db) TaskContext \<Rightarrow> 'o
     \<Rightarrow> call list \<times> ('sc, 'db) ZentaoTaskData option \<times> error option" where
  "PrepareTaskData taskCtx options =
     (case DecodeAndValidateTaskOptions taskCtx options of
        Inl err \<Rightarrow> ([], None, Some (Wrap Default err ''could not decode Zentao options''))
      | Inr op \<Rightarrow>
     (case FirstById taskCtx (ConnectionId op) of
        Inl err \<Rightarrow>
          ([CallFirstById (ConnectionId op)], None,
           Some (Wrap Default err ''unable to get Zentao connection by the given connection ID: %v''))
      | Inr connection \<Rightarrow>
     (case newApiClient taskCtx connection of
        (calls1, Inl err) \<Rightarrow> (CallFirstById (ConnectionId op) # calls1, None, Some err)
      | (calls1, Inr apiClient) \<Rightarrow>
     (case loadScopeConfig taskCtx op of
        (calls2, Inl err) \<Rightarrow> (CallFirstById (ConnectionId op) # calls1 @ calls2, None, Some err)
      | (calls2, Inr op') \<Rightarrow>
     (case openRemoteDb taskCtx connection of
        (calls3, Inl err) \<Rightarrow>
          (CallFirstById (ConnectionId op) # calls1 @ calls2 @ calls3, None, Some err)
      | (calls3, Inr remoteDb) \<Rightarrow>
          (CallFirstById (ConnectionId op) # calls1 @ calls2 @ calls3,
           finishTaskData taskCtx connection op' apiClient remoteDb))))))"

section \<open>Close\<close>

text \<open>
  What \<open>taskCtx.GetData()\<close> holds: nothing, a value of another type, or a pointer to
  Zentao task data, which may be nil. \<open>Close\<close> answers with the clients it released and
  the error it returns; the text of the task context in the error message is a parameter.
\<close>

datatype ('sc, 'db) TaskCtxData =
    NoData
  | OtherData
  | ZentaoData "('sc, 'db) ZentaoTaskData option"

datatype 'db handle = HttpClient ApiAsyncClient | MirrorDb 'db

definition Close :: "string \<Rightarrow> ('sc, 'db) TaskCtxData \<Rightarrow> 'db handle list \<times> error option" where
  "Close taskCtxText d =
     (case d of
        ZentaoData data \<Rightarrow>
          (case data of
             Some td \<Rightarrow>
               (case ApiClient td of
                  Some client \<Rightarrow> ([HttpClient client], None)
                | None \<Rightarrow> ([], None))
           | None \<Rightarrow> ([], None))
      | _ \<Rightarrow> ([], Some (New Default (''GetData failed when try to close '' @ taskCtxText))))"

text \<open>The handles a task data value holds: what a run opened and kept.\<close>

definition heldHandles :: "('sc, 'db) ZentaoTaskData \<Rightarrow> 'db handle list" where
  "heldHandles td =
     (case ApiClient td of Some client \<Rightarrow> [HttpClient client] | None \<Rightarrow> [])
     @ (case RemoteDb td of Some db \<Rightarrow> [MirrorDb db] | None \<Rightarrow> [])"

section \<open>The subtasks\<close>

text \<open>
  \<open>SubTaskMetas\<close> lists values that package tasks declares; impl.go knows them by name
  only. Each is a constant here.
\<close>

datatype SubTaskMeta =
    ConvertProjectMeta
  | CollectAccountMeta | ExtractAccountMeta | ConvertAccountMeta
  | CollectDepartmentMeta | ExtractDepartmentMeta
  | CollectExecutionSummaryMeta | ExtractExecutionSummaryMeta
  | CollectExecutionSummaryDevMeta | ExtractExecutionSummaryDevMeta
  | CollectExecutionMeta | ExtractExecutionMeta | ConvertExecutionMeta
  | CollectTaskMeta | ExtractTaskMeta | ConvertTaskMeta
  | CollectTaskCommitsMeta | ExtractTaskCommitsMeta | DBGetTaskRepoCommitsMeta | ConvertTaskRepoCommitsMeta
  | CollectStoryMeta | ExtractStoryMeta | ConvertStoryMeta | ConvertExecutionStoryMeta
  | CollectBugMeta | ExtractBugMeta | ConvertBugMeta
  | CollectStoryCommitsMeta | ExtractStoryCommitsMeta | DBGetStoryRepoCommitsMeta | ConvertStoryRepoCommitsMeta
  | CollectBugCommitsMeta | ExtractBugCommitsMeta | DBGetBugRepoCommitsMeta | ConvertBugRepoCommitsMeta
  | DBGetChangelogMeta | ConvertChangelogMeta
  | CollectTaskWorklogsMeta | ExtractTaskWorklogsMeta | ConvertTaskWorklogsMeta

definition SubTaskMetas :: "SubTaskMeta list" where
  "SubTaskMetas =
     [ConvertProjectMeta,
      CollectAccountMeta, ExtractAccountMeta, ConvertAccountMeta,
      CollectDepartmentMeta, ExtractDepartmentMeta,
      CollectExecutionSummaryMeta, ExtractExecutionSummaryMeta,
      CollectExecutionSummaryDevMeta, ExtractExecutionSummaryDevMeta,
      CollectExecutionMeta, ExtractExecutionMeta, ConvertExecutionMeta,
      CollectTaskMeta, ExtractTaskMeta, ConvertTaskMeta,
      CollectTaskCommitsMeta, ExtractTaskCommitsMeta, DBGetTaskRepoCommitsMeta, ConvertTaskRepoCommitsMeta,
      CollectStoryMeta, ExtractStoryMeta, ConvertStoryMeta, ConvertExecutionStoryMeta,
      CollectBugMeta, ExtractBugMeta, ConvertBugMeta,
      CollectStoryCommitsMeta, ExtractStoryCommitsMeta, DBGetStoryRepoCommitsMeta, ConvertStoryRepoCommitsMeta,
      CollectBugCommitsMeta, ExtractBugCommitsMeta, DBGetBugRepoCommitsMeta, ConvertBugRepoCommitsMeta,
      DBGetChangelogMeta, ConvertChangelogMeta,
      CollectTaskWorklogsMeta, ExtractTaskWorklogsMeta, ConvertTaskWorklogsMeta]"

text \<open>
  Modelled from the spec: the declarations of the subtasks are not among the sources. A
  unit is one of four kinds and bound to one entity family; both are the ones its
  identifier spells out.
\<close>

datatype unitKind = CollectUnit | ExtractUnit | ConvertUnit | DBGetUnit

datatype entityFamily =
    Project | Account | Department | ExecutionSummary | ExecutionSummaryDev
  | Execution | Task | TaskCommits | TaskRepoCommits | Story
  | ExecutionStory | Bug | StoryCommits | StoryRepoCommits | BugCommits
  | BugRepoCommits | Changelog | TaskWorklogs

fun kindOf :: "SubTaskMeta \<Rightarrow> unitKind" where
  "kindOf ConvertProjectMeta = ConvertUnit"
| "kindOf CollectAccountMeta = CollectUnit"
| "kindOf ExtractAccountMeta = ExtractUnit"
| "kindOf ConvertAccountMeta = ConvertUnit"
| "kindOf CollectDepartmentMeta = CollectUnit"
| "kindOf ExtractDepartmentMeta = ExtractUnit"
| "kindOf CollectExecutionSummaryMeta = CollectUnit"
| "kindOf ExtractExecutionSummaryMeta = ExtractUnit"
| "kindOf CollectExecutionSummaryDevMeta = CollectUnit"
| "kindOf ExtractExecutionSummaryDevMeta = ExtractUnit"
| "kindOf CollectExecutionMeta = CollectUnit"
| "kindOf ExtractExecutionMeta = ExtractUnit"
| "kindOf ConvertExecutionMeta = ConvertUnit"
| "kindOf CollectTaskMeta = CollectUnit"
| "kindOf ExtractTaskMeta = ExtractUnit"
| "kindOf ConvertTaskMeta = ConvertUnit"
| "kindOf CollectTaskCommitsMeta = CollectUnit"
| "kindOf ExtractTaskCommitsMeta = ExtractUnit"
| "kindOf DBGetTaskRepoCommitsMeta = DBGetUnit"
| "kindOf ConvertTaskRepoCommitsMeta = ConvertUnit"
| "kindOf CollectStoryMeta = CollectUnit"
| "kindOf ExtractStoryMeta = ExtractUnit"
| "kindOf ConvertStoryMeta = ConvertUnit"
| "kindOf ConvertExecutionStoryMeta = ConvertUnit"
| "kindOf CollectBugMeta = CollectUnit"
| "kindOf ExtractBugMeta = ExtractUnit"
| "kindOf ConvertBugMeta = ConvertUnit"
| "kindOf CollectStoryCommitsMeta = CollectUnit"
| "kindOf ExtractStoryCommitsMeta = ExtractUnit"
| "kindOf DBGetStoryRepoCommitsMeta = DBGetUnit"
| "kindOf ConvertStoryRepoCommitsMeta = ConvertUnit"
| "kindOf CollectBugCommitsMeta = CollectUnit"
| "kindOf ExtractBugCommitsMeta = ExtractUnit"
| "kindOf DBGetBugRepoCommitsMeta = DBGetUnit"
| "kindOf ConvertBugRepoCommitsMeta = ConvertUnit"
| "kindOf DBGetChangelogMeta = DBGetUnit"
| "kindOf ConvertChangelogMeta = ConvertUnit"
| "kindOf CollectTaskWorklogsMeta = CollectUnit"
| "kindOf ExtractTaskWorklogsMeta = ExtractUnit"
| "kindOf ConvertTaskWorklogsMeta = ConvertUnit"

fun familyOf :: "SubTaskMeta \<Rightarrow> entityFamily" where
  "familyOf ConvertProjectMeta = Project"
| "familyOf CollectAccountMeta = Account"
| "familyOf ExtractAccountMeta = Account"
| "familyOf ConvertAccountMeta = Account"
| "familyOf CollectDepartmentMeta = Department"
| "familyOf ExtractDepartmentMeta = Department"
| "familyOf CollectExecutionSummaryMeta = ExecutionSummary"
| "familyOf ExtractExecutionSummaryMeta = ExecutionSummary"
| "familyOf CollectExecutionSummaryDevMeta = ExecutionSummaryDev"
| "familyOf ExtractExecutionSummaryDevMeta = ExecutionSummaryDev"
| "familyOf CollectExecutionMeta = Execution"
| "familyOf ExtractExecutionMeta = Execution"
| "familyOf ConvertExecutionMeta = Execution"
| "familyOf CollectTaskMeta = Task"
| "familyOf ExtractTaskMeta = Task"
| "familyOf ConvertTaskMeta = Task"
| "familyOf CollectTaskCommitsMeta = TaskCommits"
| "familyOf ExtractTaskCommitsMeta = TaskCommits"
| "familyOf DBGetTaskRepoCommitsMeta = TaskRepoCommits"
| "familyOf ConvertTaskRepoCommitsMeta = TaskRepoCommits"
| "familyOf CollectStoryMeta = Story"
| "familyOf ExtractStoryMeta = Story"
| "familyOf ConvertStoryMeta = Story"
| "familyOf ConvertExecutionStoryMeta = ExecutionStory"
| "familyOf CollectBugMeta = Bug"
| "familyOf ExtractBugMeta = Bug"
| "familyOf ConvertBugMeta = Bug"
| "familyOf CollectStoryCommitsMeta = StoryCommits"
| "familyOf ExtractStoryCommitsMeta = StoryCommits"
| "familyOf DBGetStoryRepoCommitsMeta = StoryRepoCommits"
| "familyOf ConvertStoryRepoCommitsMeta = StoryRepoCommits"
| "familyOf CollectBugCommitsMeta = BugCommits"
| "familyOf ExtractBugCommitsMeta = BugCommits"
| "familyOf DBGetBugRepoCommitsMeta = BugRepoCommits"
| "familyOf ConvertBugRepoCommitsMeta = BugRepoCommits"
| "familyOf DBGetChangelogMeta = Changelog"
| "familyOf ConvertChangelogMeta = Changelog"
| "familyOf CollectTaskWorklogsMeta = TaskWorklogs"
| "familyOf ExtractTaskWorklogsMeta = TaskWorklogs"
| "familyOf ConvertTaskWorklogsMeta = TaskWorklogs"

text \<open>The place of a unit in a list of units: the index of its first occurrence.\<close>

fun place :: "SubTaskMeta list \<Rightarrow> SubTaskMeta \<Rightarrow> nat option" where
  "place [] u = None"
| "place (m # ms) u = (if m = u then Some 0 else map_option Suc (place ms u))"

section \<open>Example runs\<close>

text \<open>
  Concrete surroundings on which the functions are run below. The raw options are the
  scope configuration id; the connection with id 1 exists; the API client is bound to the
  connection's endpoint; the store answers a scope configuration load with \<open>loaded\<close>;
  the mirror database opens with handle 7; URLs are parsed as net/url does.
\<close>

definition exampleConnection :: ZentaoConnection where
  "exampleConnection =
     \<lparr>Endpoint = ''http://54.158.1.10:30001/api.php/v1/'', DbUrl = ''mysql://10.0.0.5/zentao'',
      DbLoggingLevel = [], DbIdleConns = 0, DbMaxConns = 25\<rparr>"

definition exampleTaskCtx ::
  "bool \<Rightarrow> ZentaoConnection \<Rightarrow> nat option \<times> error option \<Rightarrow> (64 word, nat, nat) TaskContext" where
  "exampleTaskCtx skip connection loaded =
     \<lparr>DecodeAndValidateTaskOptions =
        (\<lambda>scopeConfigId. Inr \<lparr>ConnectionId = 1, ScopeConfigId = scopeConfigId, ScopeConfig = None\<rparr>),
      FirstById = (\<lambda>id. if id = 1 then Inr connection else Inl (ErrorString ''record not found'')),
      SkipCollectors = skip,
      NewZentaoApiClient = (\<lambda>c. Inr \<lparr>GetEndpoint = Endpoint c\<rparr>),
      DalFirst = (\<lambda>id. loaded),
      IsErrorNotFound = (\<lambda>e. e = ErrorString ''record not found''),
      GetConfig = (\<lambda>key. if key = ''DB_LOGGING_LEVEL'' then ''Error'' else []),
      GetInt = (\<lambda>key. if key = ''DB_IDLE_CONNS'' then 10 else if key = ''DB_MAX_CONNS'' then 100 else 0),
      NewGormDb = (\<lambda>v. Inr 7),
      UrlParse = url_Parse\<rparr>"

text \<open>
  The same surroundings with collectors running and an API client constructor that refuses
  a connection without an endpoint.
\<close>

definition exampleStrictTaskCtx :: "ZentaoConnection \<Rightarrow> (64 word, nat, nat) TaskContext" where
  "exampleStrictTaskCtx connection =
     (exampleTaskCtx False connection (None, None))
       \<lparr>NewZentaoApiClient :=
          (\<lambda>c. if Endpoint c = [] then Inl (ErrorString ''invalid endpoint'')
               else Inr \<lparr>GetEndpoint = Endpoint c\<rparr>)\<rparr>"

text \<open>What the example run with collectors and a mirror database hands to \<open>runner.NewGormDb\<close>
  and returns as task data.\<close>

definition exampleDbConfig :: viper where
  "exampleDbConfig =
     [(''DB_URL'', StringValue ''mysql://10.0.0.5/zentao''),
      (''DB_LOGGING_LEVEL'', StringValue ''Error''),
      (''DB_IDLE_CONNS'', IntValue 10),
      (''DbMaxConns'', IntValue 25)]"

definition exampleTaskData :: "(nat, nat) ZentaoTaskData" where
  "exampleTaskData =
     \<lparr>Options = \<lparr>ConnectionId = 1, ScopeConfigId = 0, ScopeConfig = None\<rparr>,
      ApiClient = Some \<lparr>GetEndpoint = ''http://54.158.1.10:30001/api.php/v1/''\<rparr>,
      Stories = {}, Tasks = {}, Bugs = {}, AccountCache = NewAccountCache 1,
      RemoteDb = Some 7, HomePageURL = ''http://54.158.1.10:30001''\<rparr>"

section \<open>Substrings\<close>

lemma HasPrefix_iff: "HasPrefix s p \<longleftrightarrow> (\<exists>post. s = p @ post)"
  unfolding HasPrefix_def
  by (metis append_eq_conv_conj append_take_drop_id)

lemma Index_Some_split:
  "Index s sep = Some i \<Longrightarrow> s = take i s @ sep @ drop (i + length sep) s"
proof (induction s arbitrary: i)
  case Nil
  then show ?case by (auto split: if_splits)
next
  case (Cons c s)
  show ?case
  proof (cases "HasPrefix (c # s) sep")
    case True
    with Cons.prems have "i = 0" by simp
    moreover from True obtain post where "c # s = sep @ post" by (auto simp: HasPrefix_iff)
    ultimately show ?thesis by (metis add_0 append_Nil append_eq_conv_conj take0)
  next
    case False
    with Cons.prems obtain j where j: "Index s sep = Some j" "i = Suc j" by auto
    from Cons.IH[OF j(1)] j(2) show ?thesis by simp
  qed
qed

lemma Index_Some_least:
  "Index s sep = Some i \<Longrightarrow> s = pre @ sep @ post \<Longrightarrow> i \<le> length pre"
proof (induction s arbitrary: i pre)
  case Nil
  then show ?case by (auto split: if_splits)
next
  case (Cons c s)
  show ?case
  proof (cases "HasPrefix (c # s) sep")
    case True
    with Cons.prems(1) show ?thesis by simp
  next
    case False
    with Cons.prems(1) obtain j where j: "Index s sep = Some j" "i = Suc j" by auto
    from False Cons.prems(2) have "pre \<noteq> []" by (auto simp: HasPrefix_iff)
    then obtain pre' where p: "pre = c # pre'" "s = pre' @ sep @ post"
      using Cons.prems(2) by (cases pre) auto
    from Cons.IH[OF j(1) p(2)] j(2) p(1) show ?thesis by simp
  qed
qed

lemma Index_None_iff: "Index s sep = None \<longleftrightarrow> \<not> (\<exists>pre post. s = pre @ sep @ post)"
proof
  assume n: "Index s sep = None"
  show "\<not> (\<exists>pre post. s = pre @ sep @ post)"
  proof
    assume "\<exists>pre post. s = pre @ sep @ post"
    then obtain pre post where "s = pre @ sep @ post" by blast
    with n show False
    proof (induction s arbitrary: pre)
      case Nil
      then show ?case by (auto split: if_splits)
    next
      case (Cons c s)
      from Cons.prems(1) have np: "\<not> HasPrefix (c # s) sep" and ns: "Index s sep = None"
        by (auto split: if_splits)
      from np Cons.prems(2) have "pre \<noteq> []" by (auto simp: HasPrefix_iff)
      then obtain pre' where "s = pre' @ sep @ post" using Cons.prems(2) by (cases pre) auto
      with Cons.IH[OF ns] show ?case by blast
    qed
  qed
next
  assume "\<not> (\<exists>pre post. s = pre @ sep @ post)"
  then show "Index s sep = None"
    using Index_Some_split by (cases "Index s sep") blast+
qed

lemma Contains_iff: "Contains s substr \<longleftrightarrow> (\<exists>pre post. s = pre @ substr @ post)"
  by (simp add: Contains_def Index_None_iff)

lemma Cut_found:
  assumes "s = pre @ sep @ post"
  shows "\<exists>pre0 post0. Cut s sep = (pre0, post0, True) \<and> s = pre0 @ sep @ post0
           \<and> (\<forall>pre' post'. s = pre' @ sep @ post' \<longrightarrow> length pre0 \<le> length pre')"
proof -
  from assms have "Index s sep \<noteq> None" by (auto simp: Index_None_iff)
  then obtain i where i: "Index s sep = Some i" by auto
  have le: "i \<le> length s" using Index_Some_least[OF i assms] assms by simp
  have "Cut s sep = (take i s, drop (i + length sep) s, True)" by (simp add: Cut_def i)
  moreover have "s = take i s @ sep @ drop (i + length sep) s" by (rule Index_Some_split[OF i])
  moreover have "\<forall>pre' post'. s = pre' @ sep @ post' \<longrightarrow> length (take i s) \<le> length pre'"
    using Index_Some_least[OF i] le by simp
  ultimately show ?thesis by blast
qed

lemma Cut_not_found:
  "\<not> (\<exists>pre post. s = pre @ sep @ post) \<Longrightarrow> Cut s sep = (s, [], False)"
proof -
  assume "\<not> (\<exists>pre post. s = pre @ sep @ post)"
  then have "Index s sep = None" by (simp add: Index_None_iff)
  then show ?thesis by (simp add: Cut_def)
qed


section \<open>The home page\<close>

text \<open>The endpoints evaluated below, as net/url parses them.\<close>

lemma url_Parse_example:
  "url_Parse ''http://h/zentao/api.php/v1/x/api.php/v1'' =
     Inr \<lparr>Scheme = ''http'', Host = ''h'', Path = ''/zentao/api.php/v1/x/api.php/v1''\<rparr>"
  by code_simp

lemma Index_example: "Index ''/zentao/api.php/v1/x/api.php/v1'' ''/api.php/v1'' = Some 7"
  by code_simp

lemma url_Parse_plain:
  "url_Parse ''http://h/zentao/'' = Inr \<lparr>Scheme = ''http'', Host = ''h'', Path = ''/zentao/''\<rparr>"
  by code_simp

lemma Index_plain: "Index ''/zentao/'' ''/api.php/v1'' = None"
  by code_simp

lemma url_Parse_documented:
  "url_Parse ''http://54.158.1.10:30001/api.php/v1/'' =
     Inr \<lparr>Scheme = ''http'', Host = ''54.158.1.10:30001'', Path = ''/api.php/v1/''\<rparr>"
  by code_simp

lemma homePage_documented:
  "getZentaoHomePage url_Parse ''http://54.158.1.10:30001/api.php/v1/'' = Inr ''http://54.158.1.10:30001''"
  by (simp add: getZentaoHomePage_def url_Parse_documented) code_simp

text \<open>
  C2. The specification: for a non-empty, parseable endpoint the home page keeps scheme
  and host and loses exactly the versioned API suffix, so that
  \<open>http://54.158.1.10:30001/api.php/v1/\<close> gives \<open>http://54.158.1.10:30001/\<close>, as the
  comment above \<open>getZentaoHomePage\<close> says too. The code cuts the path at the suffix and
  drops what follows it as well: on that endpoint it returns \<open>http://54.158.1.10:30001\<close>,
  without the final slash.
\<close>

theorem getZentaoHomePage_documented_endpoint:
  "getZentaoHomePage url_Parse ''http://54.158.1.10:30001/api.php/v1/'' = Inr ''http://54.158.1.10:30001''
   \<and> getZentaoHomePage url_Parse ''http://54.158.1.10:30001/api.php/v1/'' \<noteq> Inr ''http://54.158.1.10:30001/''"
  by (simp add: homePage_documented)

text \<open>
  C10, as amended. For every non-empty endpoint that \<open>url.Parse\<close> accepts, with scheme,
  host and path the \<open>Scheme\<close>, \<open>Host\<close> and \<open>Path\<close> of the URL it returns: when the path
  does not contain \<open>/api.php/v1\<close>, the home page is scheme, \<open>://\<close>, host and the whole
  path; when it does, the home page ends where the first occurrence begins, and the
  occurrence and all that follows are dropped. The specification speaks of every parseable
  endpoint and of its original path.
\<close>

theorem getZentaoHomePage_path:
  assumes "endpoint \<noteq> []" and "urlParse endpoint = Inr u"
  shows "(\<not> (\<exists>pre post. Path u = pre @ ''/api.php/v1'' @ post) \<longrightarrow>
            getZentaoHomePage urlParse endpoint = Inr (Scheme u @ ''://'' @ Host u @ Path u))
       \<and> ((\<exists>pre post. Path u = pre @ ''/api.php/v1'' @ post) \<longrightarrow>
            (\<exists>pre post. Path u = pre @ ''/api.php/v1'' @ post
               \<and> (\<forall>pre' post'. Path u = pre' @ ''/api.php/v1'' @ post' \<longrightarrow> length pre \<le> length pre')
               \<and> getZentaoHomePage urlParse endpoint = Inr (Scheme u @ ''://'' @ Host u @ pre)))"
proof (intro conjI impI)
  assume "\<not> (\<exists>pre post. Path u = pre @ ''/api.php/v1'' @ post)"
  then have "Cut (Path u) ''/api.php/v1'' = (Path u, [], False)" by (rule Cut_not_found)
  with assms show "getZentaoHomePage urlParse endpoint = Inr (Scheme u @ ''://'' @ Host u @ Path u)"
    by (simp add: getZentaoHomePage_def)
next
  assume "\<exists>pre post. Path u = pre @ ''/api.php/v1'' @ post"
  then obtain pre post where "Path u = pre @ ''/api.php/v1'' @ post" by blast
  from Cut_found[OF this] obtain pre0 post0 where
    c: "Cut (Path u) ''/api.php/v1'' = (pre0, post0, True)"
    and s: "Path u = pre0 @ ''/api.php/v1'' @ post0"
    and l: "\<forall>pre' post'. Path u = pre' @ ''/api.php/v1'' @ post' \<longrightarrow> length pre0 \<le> length pre'"
    by blast
  from assms c have "getZentaoHomePage urlParse endpoint = Inr (Scheme u @ ''://'' @ Host u @ pre0)"
    by (simp add: getZentaoHomePage_def)
  with s l show "\<exists>pre post. Path u = pre @ ''/api.php/v1'' @ post
               \<and> (\<forall>pre' post'. Path u = pre' @ ''/api.php/v1'' @ post' \<longrightarrow> length pre \<le> length pre')
               \<and> getZentaoHomePage urlParse endpoint = Inr (Scheme u @ ''://'' @ Host u @ pre)"
    by blast
qed

theorem getZentaoHomePage_path_witness:
  "getZentaoHomePage url_Parse ''http://h/zentao/'' = Inr ''http://h/zentao/''
   \<and> getZentaoHomePage url_Parse ''http://h/zentao/api.php/v1/x/api.php/v1'' = Inr ''http://h/zentao''"
proof (rule conjI)
  let ?e = "''http://h/zentao/''"
  let ?u = "\<lparr>Scheme = ''http'', Host = ''h'', Path = ''/zentao/''\<rparr>"
  have ne: "?e \<noteq> []" by simp
  have "Index (Path ?u) ''/api.php/v1'' = None" using Index_plain by simp
  then have no: "\<not> (\<exists>pre post. Path ?u = pre @ ''/api.php/v1'' @ post)"
    using Index_None_iff[of "Path ?u" "''/api.php/v1''"] by blast
  note step = getZentaoHomePage_path[of ?e url_Parse ?u, OF ne url_Parse_plain, THEN conjunct1]
  from step no have "getZentaoHomePage url_Parse ?e = Inr (Scheme ?u @ ''://'' @ Host ?u @ Path ?u)"
    by (rule mp)
  then show "getZentaoHomePage url_Parse ?e = Inr ''http://h/zentao/''" by simp
next
  let ?e = "''http://h/zentao/api.php/v1/x/api.php/v1''"
  let ?u = "\<lparr>Scheme = ''http'', Host = ''h'', Path = ''/zentao/api.php/v1/x/api.php/v1''\<rparr>"
  have ne: "?e \<noteq> []" by simp
  have split: "Path ?u = ''/zentao'' @ ''/api.php/v1'' @ ''/x/api.php/v1''" by simp
  then have ex: "\<exists>pre post. Path ?u = pre @ ''/api.php/v1'' @ post" by blast
  have idx: "Index (Path ?u) ''/api.php/v1'' = Some 7" using Index_example by simp
  note step = getZentaoHomePage_path[of ?e url_Parse ?u, OF ne url_Parse_example, THEN conjunct2]
  from step ex have "\<exists>pre post. Path ?u = pre @ ''/api.php/v1'' @ post
      \<and> (\<forall>pre' post'. Path ?u = pre' @ ''/api.php/v1'' @ post' \<longrightarrow> length pre \<le> length pre')
      \<and> getZentaoHomePage url_Parse ?e = Inr (Scheme ?u @ ''://'' @ Host ?u @ pre)"
    by (rule mp)
  then obtain pre post where p: "Path ?u = pre @ ''/api.php/v1'' @ post"
    and l: "\<forall>pre' post'. Path ?u = pre' @ ''/api.php/v1'' @ post' \<longrightarrow> length pre \<le> length pre'"
    and r: "getZentaoHomePage url_Parse ?e = Inr (Scheme ?u @ ''://'' @ Host ?u @ pre)"
    by (elim exE conjE)
  from l split have "length pre \<le> length ''/zentao''" by blast
  moreover from Index_Some_least[OF idx p] have "7 \<le> length pre" .
  ultimately have "length pre = length ''/zentao''" by simp
  with p split have "pre = ''/zentao''" by (metis append_eq_append_conv)
  with r show "getZentaoHomePage url_Parse ?e = Inr ''http://h/zentao''" by simp
qed

text \<open>
  The statement about the original path fails within lines 262 to 270: \<open>Path\<close> is the path
  with its percent escapes decoded. The endpoint \<open>http://h/a%20b\<close> does not contain
  \<open>/api.php/v1\<close> and its home page is not the endpoint but \<open>http://h/a b\<close>; the endpoint
  \<open>http://h/a%2Fapi.php/v1/x\<close> does not contain \<open>/api.php/v1\<close> either, its decoded path
  does, and its home page is \<open>http://h/a\<close>. The statement about every parseable endpoint
  fails for the empty one: net/url parses it, to a URL with an empty path, and
  \<open>getZentaoHomePage\<close> refuses it before parsing.
\<close>

theorem getZentaoHomePage_path_counterexample:
  "\<not> Contains ''http://h/a%20b'' ''/api.php/v1''
   \<and> url_Parse ''http://h/a%20b'' = Inr \<lparr>Scheme = ''http'', Host = ''h'', Path = ''/a b''\<rparr>
   \<and> getZentaoHomePage url_Parse ''http://h/a%20b'' = Inr ''http://h/a b''
   \<and> \<not> Contains ''http://h/a%2Fapi.php/v1/x'' ''/api.php/v1''
   \<and> getZentaoHomePage url_Parse ''http://h/a%2Fapi.php/v1/x'' = Inr ''http://h/a''
   \<and> url_Parse [] = Inr \<lparr>Scheme = [], Host = [], Path = []\<rparr>
   \<and> \<not> Contains (Path \<lparr>Scheme = [], Host = [], Path = []\<rparr>) ''/api.php/v1''
   \<and> getZentaoHomePage url_Parse [] = Inl (New Default ''empty endpoint'')"
  by (intro conjI; code_simp)

section \<open>The steps of PrepareTaskData\<close>

text \<open>What each step answers, and the ways a run of \<open>PrepareTaskData\<close> can end.\<close>

lemma loadScopeConfig_calls:
  "loadScopeConfig taskCtx op = (calls, r) \<Longrightarrow> calls = [] \<or> calls = [CallDalFirst (ScopeConfigId op)]"
  by (auto simp: loadScopeConfig_def split: if_splits prod.splits option.splits)

lemma finishTaskData_data:
  "finishTaskData taskCtx connection op apiClient remoteDb = (data, err) \<Longrightarrow>
     \<exists>td. data = Some td \<and> Options td = op \<and> ApiClient td = apiClient \<and> RemoteDb td = remoteDb
        \<and> Stories td = {} \<and> Tasks td = {} \<and> Bugs td = {}
        \<and> AccountCache td = NewAccountCache (ConnectionId op)"
  by (auto simp: finishTaskData_def Let_def split: sum.splits)

lemma PrepareTaskData_cases [case_names decode_failed connection_failed client_failed
    scope_config_failed remote_db_failed finished]:
  assumes "PrepareTaskData taskCtx options = (calls, data, err)"
  obtains
    (decode_failed) e where
      "DecodeAndValidateTaskOptions taskCtx options = Inl e"
      "calls = []" "data = None" "err = Some (Wrap Default e ''could not decode Zentao options'')"
  | (connection_failed) op e where
      "DecodeAndValidateTaskOptions taskCtx options = Inr op"
      "FirstById taskCtx (ConnectionId op) = Inl e"
      "calls = [CallFirstById (ConnectionId op)]" "data = None"
      "err = Some (Wrap Default e ''unable to get Zentao connection by the given connection ID: %v'')"
  | (client_failed) op connection calls1 e where
      "DecodeAndValidateTaskOptions taskCtx options = Inr op"
      "FirstById taskCtx (ConnectionId op) = Inr connection"
      "newApiClient taskCtx connection = (calls1, Inl e)"
      "calls = CallFirstById (ConnectionId op) # calls1" "data = None" "err = Some e"
  | (scope_config_failed) op connection calls1 apiClient calls2 e where
      "DecodeAndValidateTaskOptions taskCtx options = Inr op"
      "FirstById taskCtx (ConnectionId op) = Inr connection"
      "newApiClient taskCtx connection = (calls1, Inr apiClient)"
      "loadScopeConfig taskCtx op = (calls2, Inl e)"
      "calls = CallFirstById (ConnectionId op) # calls1 @ calls2" "data = None" "err = Some e"
  | (remote_db_failed) op connection calls1 apiClient calls2 op' calls3 e where
      "DecodeAndValidateTaskOptions taskCtx options = Inr op"
      "FirstById taskCtx (ConnectionId op) = Inr connection"
      "newApiClient taskCtx connection = (calls1, Inr apiClient)"
      "loadScopeConfig taskCtx op = (calls2, Inr op')"
      "openRemoteDb taskCtx connection = (calls3, Inl e)"
      "calls = CallFirstById (ConnectionId op) # calls1 @ calls2 @ calls3" "data = None" "err = Some e"
  | (finished) op connection calls1 apiClient calls2 op' calls3 remoteDb where
      "DecodeAndValidateTaskOptions taskCtx options = Inr op"
      "FirstById taskCtx (ConnectionId op) = Inr connection"
      "newApiClient taskCtx connection = (calls1, Inr apiClient)"
      "loadScopeConfig taskCtx op = (calls2, Inr op')"
      "openRemoteDb taskCtx connection = (calls3, Inr remoteDb)"
      "calls = CallFirstById (ConnectionId op) # calls1 @ calls2 @ calls3"
      "finishTaskData taskCtx connection op' apiClient remoteDb = (data, err)"
proof (cases "DecodeAndValidateTaskOptions taskCtx options")
  case (Inl e)
  with assms decode_failed show ?thesis by (simp add: PrepareTaskData_def)
next
  case op: (Inr op)
  show ?thesis
  proof (cases "FirstById taskCtx (ConnectionId op)")
    case (Inl e)
    with assms op connection_failed show ?thesis by (simp add: PrepareTaskData_def)
  next
    case connection: (Inr connection)
    obtain calls1 r1 where s1: "newApiClient taskCtx connection = (calls1, r1)" by force
    obtain calls2 r2 where s2: "loadScopeConfig taskCtx op = (calls2, r2)" by force
    obtain calls3 r3 where s3: "openRemoteDb taskCtx connection = (calls3, r3)" by force
    show ?thesis
    proof (cases r1)
      case (Inl e)
      with assms op connection s1 client_failed show ?thesis by (simp add: PrepareTaskData_def)
    next
      case r1: (Inr apiClient)
      show ?thesis
      proof (cases r2)
        case (Inl e)
        with assms op connection s1 r1 s2 scope_config_failed show ?thesis
          by (simp add: PrepareTaskData_def)
      next
        case r2: (Inr op')
        show ?thesis
        proof (cases r3)
          case (Inl e)
          with assms op connection s1 r1 s2 r2 s3 remote_db_failed show ?thesis
            by (simp add: PrepareTaskData_def)
        next
          case r3: (Inr remoteDb)
          with assms op connection s1 r1 s2 r2 s3 finished show ?thesis
            by (simp add: PrepareTaskData_def)
        qed
      qed
    qed
  qed
qed

lemma newApiClient_result:
  "newApiClient taskCtx connection = (calls1, r) \<Longrightarrow>
     (if SkipCollectors taskCtx then calls1 = [] \<and> r = Inr None
      else calls1 = [CallNewZentaoApiClient connection]
           \<and> r = (case NewZentaoApiClient taskCtx connection of
                    Inl err \<Rightarrow> Inl (Wrap Default err ''unable to get Zentao API client instance: %v'')
                  | Inr client \<Rightarrow> Inr (Some client)))"
  by (cases "SkipCollectors taskCtx") (auto simp: newApiClient_def split: sum.splits)

lemma openRemoteDb_result:
  "openRemoteDb taskCtx connection = (calls3, r) \<Longrightarrow>
     (if SkipCollectors taskCtx \<or> DbUrl connection = [] then calls3 = [] \<and> r = Inr None
      else calls3 = [CallNewGormDb (remoteDbConfig (withDbDefaults taskCtx connection))]
           \<and> r = (case NewGormDb taskCtx (remoteDbConfig (withDbDefaults taskCtx connection)) of
                    Inl err \<Rightarrow>
                      Inl (Wrap Default err
                            (''failed to connect to the zentao remote databases ''
                             @ DbUrl (withDbDefaults taskCtx connection)))
                  | Inr rgorm \<Rightarrow> Inr (Some rgorm)))"
  by (cases "SkipCollectors taskCtx"; cases "DbUrl connection = []")
     (auto simp: openRemoteDb_def Let_def split: sum.splits)

lemma loadScopeConfig_error:
  "loadScopeConfig taskCtx op = (calls2, Inl e) \<Longrightarrow>
     \<exists>e'. e = Wrap BadInput e' ''fail to load scope config from database''"
  by (auto simp: loadScopeConfig_def split: if_splits prod.splits option.splits)

lemma loadScopeConfig_ConnectionId:
  "loadScopeConfig taskCtx op = (calls2, Inr op') \<Longrightarrow> ConnectionId op' = ConnectionId op"
  by (auto simp: loadScopeConfig_def split: if_splits prod.splits option.splits)

lemma finishTaskData_result:
  "finishTaskData taskCtx connection op apiClient remoteDb = (data, err) \<Longrightarrow>
     (case getZentaoHomePage (UrlParse taskCtx)
             (case apiClient of Some client \<Rightarrow> GetEndpoint client | None \<Rightarrow> Endpoint connection) of
        Inl e \<Rightarrow>
          data = Some \<lparr>Options = op, ApiClient = apiClient, Stories = {}, Tasks = {}, Bugs = {},
                       AccountCache = NewAccountCache (ConnectionId op), RemoteDb = remoteDb,
                       HomePageURL = []\<rparr>
          \<and> err = Some (Convert e)
      | Inr homepage \<Rightarrow>
          data = Some \<lparr>Options = op, ApiClient = apiClient, Stories = {}, Tasks = {}, Bugs = {},
                       AccountCache = NewAccountCache (ConnectionId op), RemoteDb = remoteDb,
                       HomePageURL = homepage\<rparr>
          \<and> err = None)"
  by (auto simp: finishTaskData_def Let_def split: sum.splits)

lemma withDbDefaults_fields:
  "DbLoggingLevel (withDbDefaults taskCtx connection) =
     (if DbLoggingLevel connection = [] then GetConfig taskCtx ''DB_LOGGING_LEVEL''
      else DbLoggingLevel connection)"
  "DbIdleConns (withDbDefaults taskCtx connection) =
     (if DbIdleConns connection = 0 then GetInt taskCtx ''DB_IDLE_CONNS'' else DbIdleConns connection)"
  "DbMaxConns (withDbDefaults taskCtx connection) =
     (if DbMaxConns connection = 0 then GetInt taskCtx ''DB_MAX_CONNS'' else DbMaxConns connection)"
  "DbUrl (withDbDefaults taskCtx connection) = DbUrl connection"
  "Endpoint (withDbDefaults taskCtx connection) = Endpoint connection"
  by (simp_all add: withDbDefaults_def Let_def)

lemma remoteDbConfig_lookup:
  "map_of (remoteDbConfig c) ''DB_URL'' = Some (StringValue (DbUrl c))"
  "map_of (remoteDbConfig c) ''DB_LOGGING_LEVEL'' = Some (StringValue (DbLoggingLevel c))"
  "map_of (remoteDbConfig c) ''DB_IDLE_CONNS'' = Some (IntValue (DbIdleConns c))"
  "map_of (remoteDbConfig c) ''DbMaxConns'' = Some (IntValue (DbMaxConns c))"
  "map_of (remoteDbConfig c) ''DB_MAX_CONNS'' = None"
  by (simp_all add: remoteDbConfig_def viper_Set_def viper_New_def update_conv')

lemma loadScopeConfig_not_found:
  assumes "ScopeConfig op = None" and "ScopeConfigId op \<noteq> 0"
    and "DalFirst taskCtx (ScopeConfigId op) = (loaded, Some e)" and "IsErrorNotFound taskCtx e"
  shows "loadScopeConfig taskCtx op =
           ([CallDalFirst (ScopeConfigId op)],
            Inl (Wrap BadInput e ''fail to load scope config from database''))"
  using assms by (simp add: loadScopeConfig_def)

lemma loadScopeConfig_other_error:
  assumes "ScopeConfig op = None" and "ScopeConfigId op \<noteq> 0"
    and "DalFirst taskCtx (ScopeConfigId op) = (loaded, Some e)" and "\<not> IsErrorNotFound taskCtx e"
  shows "loadScopeConfig taskCtx op =
           ([CallDalFirst (ScopeConfigId op)], Inr (op\<lparr>ScopeConfig := loaded\<rparr>))"
  using assms by (simp add: loadScopeConfig_def)

lemma PrepareTaskData_scope_config_not_found:
  assumes "DecodeAndValidateTaskOptions taskCtx options = Inr op"
    and "FirstById taskCtx (ConnectionId op) = Inr connection"
    and "newApiClient taskCtx connection = (calls1, Inr apiClient)"
    and "ScopeConfig op = None" and "ScopeConfigId op \<noteq> 0"
    and "DalFirst taskCtx (ScopeConfigId op) = (loaded, Some e)" and "IsErrorNotFound taskCtx e"
  shows "PrepareTaskData taskCtx options =
           (CallFirstById (ConnectionId op) # calls1 @ [CallDalFirst (ScopeConfigId op)], None,
            Some (Wrap BadInput e ''fail to load scope config from database''))"
  using assms loadScopeConfig_not_found[of op taskCtx loaded e]
  by (simp add: PrepareTaskData_def)

lemma PrepareTaskData_scope_config_other_error:
  assumes "DecodeAndValidateTaskOptions taskCtx options = Inr op"
    and "FirstById taskCtx (ConnectionId op) = Inr connection"
    and "newApiClient taskCtx connection = (calls1, Inr apiClient)"
    and "ScopeConfig op = None" and "ScopeConfigId op \<noteq> 0"
    and "DalFirst taskCtx (ScopeConfigId op) = (loaded, Some e)" and "\<not> IsErrorNotFound taskCtx e"
  shows "PrepareTaskData taskCtx options =
           (case openRemoteDb taskCtx connection of
              (calls3, Inl err) \<Rightarrow>
                (CallFirstById (ConnectionId op) # calls1 @ [CallDalFirst (ScopeConfigId op)] @ calls3,
                 None, Some err)
            | (calls3, Inr remoteDb) \<Rightarrow>
                (CallFirstById (ConnectionId op) # calls1 @ [CallDalFirst (ScopeConfigId op)] @ calls3,
                 finishTaskData taskCtx connection (op\<lparr>ScopeConfig := loaded\<rparr>) apiClient remoteDb))"
  using assms loadScopeConfig_other_error[of op taskCtx loaded e]
  by (simp add: PrepareTaskData_def split: prod.splits sum.splits)

lemma PrepareTaskData_opened:
  assumes op: "DecodeAndValidateTaskOptions taskCtx options = Inr op"
    and connection: "FirstById taskCtx (ConnectionId op) = Inr connection"
    and run: "PrepareTaskData taskCtx options = (calls, data, err)"
    and opened: "CallNewGormDb v \<in> set calls"
  shows "DbUrl connection \<noteq> [] \<and> \<not> SkipCollectors taskCtx
       \<and> v = remoteDbConfig (withDbDefaults taskCtx connection)"
  using run
proof (cases rule: PrepareTaskData_cases)
  case (decode_failed e)
  with opened show ?thesis by simp
next
  case (connection_failed op' e)
  with opened show ?thesis by simp
next
  case (client_failed op' connection' calls1 e)
  from newApiClient_result[OF client_failed(3)] client_failed(4) opened show ?thesis
    by (auto split: if_splits)
next
  case (scope_config_failed op' connection' calls1 apiClient calls2 e)
  from newApiClient_result[OF scope_config_failed(3)] loadScopeConfig_calls[OF scope_config_failed(4)]
    scope_config_failed(5) opened
  show ?thesis by (auto split: if_splits)
next
  case (remote_db_failed op' connection' calls1 apiClient calls2 op'' calls3 e)
  with op connection have s3: "openRemoteDb taskCtx connection = (calls3, Inl e)" by simp
  from newApiClient_result[OF remote_db_failed(3)] loadScopeConfig_calls[OF remote_db_failed(4)]
    openRemoteDb_result[OF s3] remote_db_failed(6) opened
  show ?thesis by (auto split: if_splits)
next
  case (finished op' connection' calls1 apiClient calls2 op'' calls3 remoteDb)
  with op connection have s3: "openRemoteDb taskCtx connection = (calls3, Inr remoteDb)" by simp
  from newApiClient_result[OF finished(3)] loadScopeConfig_calls[OF finished(4)]
    openRemoteDb_result[OF s3] finished(6) opened
  show ?thesis by (auto split: if_splits)
qed

lemma PrepareTaskData_skip_data:
  assumes skip: "SkipCollectors taskCtx"
    and run: "PrepareTaskData taskCtx options = (calls, Some td, err)"
  shows "ApiClient td = None \<and> RemoteDb td = None"
  using run
proof (cases rule: PrepareTaskData_cases)
  case (finished op connection calls1 apiClient calls2 op' calls3 remoteDb)
  from newApiClient_result[OF finished(3)] openRemoteDb_result[OF finished(5)] skip
    finishTaskData_data[OF finished(7)]
  show ?thesis by auto
qed simp_all

lemma PrepareTaskData_collect_data:
  assumes skip: "\<not> SkipCollectors taskCtx"
    and run: "PrepareTaskData taskCtx options = (calls, Some td, err)"
  shows "\<exists>client. ApiClient td = Some client"
  using run
proof (cases rule: PrepareTaskData_cases)
  case (finished op connection calls1 apiClient calls2 op' calls3 remoteDb)
  from newApiClient_result[OF finished(3)] skip finishTaskData_data[OF finished(7)]
  show ?thesis by (auto split: sum.splits)
qed simp_all

section \<open>The example runs, evaluated\<close>

lemma exampleTaskCtx_facts:
  "SkipCollectors (exampleTaskCtx skip connection loaded) = skip"
  "DecodeAndValidateTaskOptions (exampleTaskCtx skip connection loaded) n =
     Inr \<lparr>ConnectionId = 1, ScopeConfigId = n, ScopeConfig = None\<rparr>"
  "FirstById (exampleTaskCtx skip connection loaded) 1 = Inr connection"
  "NewZentaoApiClient (exampleTaskCtx skip connection loaded) c = Inr \<lparr>GetEndpoint = Endpoint c\<rparr>"
  "DalFirst (exampleTaskCtx skip connection loaded) n = loaded"
  "NewGormDb (exampleTaskCtx skip connection loaded) v = Inr 7"
  "UrlParse (exampleTaskCtx skip connection loaded) = url_Parse"
  "IsErrorNotFound (exampleTaskCtx skip connection loaded) e = (e = ErrorString ''record not found'')"
  by (simp_all add: exampleTaskCtx_def)

lemma remoteDbConfig_example:
  "remoteDbConfig (withDbDefaults (exampleTaskCtx skip connection loaded) exampleConnection) = exampleDbConfig"
  by (simp add: remoteDbConfig_def withDbDefaults_def exampleTaskCtx_def exampleConnection_def
      viper_Set_def viper_New_def exampleDbConfig_def)

lemma exampleConnection_fields:
  "Endpoint exampleConnection = ''http://54.158.1.10:30001/api.php/v1/''"
  "DbUrl exampleConnection \<noteq> []"
  by (simp_all add: exampleConnection_def)

lemma exampleRun_mirror:
  "PrepareTaskData (exampleTaskCtx False exampleConnection (None, None)) 0 =
     ([CallFirstById 1, CallNewZentaoApiClient exampleConnection, CallNewGormDb exampleDbConfig],
      Some exampleTaskData, None)"
  using remoteDbConfig_example[of False exampleConnection "(None, None)"]
  by (simp add: PrepareTaskData_def newApiClient_def loadScopeConfig_def openRemoteDb_def
      finishTaskData_def Let_def homePage_documented exampleConnection_fields exampleTaskCtx_def
      exampleTaskData_def)

lemma exampleRun_http:
  "PrepareTaskData (exampleTaskCtx False (exampleConnection\<lparr>DbUrl := []\<rparr>) (None, None)) 0 =
     ([CallFirstById 1, CallNewZentaoApiClient (exampleConnection\<lparr>DbUrl := []\<rparr>)],
      Some (exampleTaskData\<lparr>RemoteDb := None\<rparr>), None)"
  by (simp add: PrepareTaskData_def newApiClient_def loadScopeConfig_def openRemoteDb_def
      finishTaskData_def Let_def homePage_documented exampleConnection_fields exampleTaskCtx_def
      exampleTaskData_def)

lemma exampleRun_empty_endpoint:
  "PrepareTaskData (exampleTaskCtx False (exampleConnection\<lparr>Endpoint := []\<rparr>) (None, None)) 0 =
     ([CallFirstById 1, CallNewZentaoApiClient (exampleConnection\<lparr>Endpoint := []\<rparr>),
       CallNewGormDb exampleDbConfig],
      Some (exampleTaskData\<lparr>ApiClient := Some \<lparr>GetEndpoint = []\<rparr>, HomePageURL := []\<rparr>),
      Some (Convert (New Default ''empty endpoint'')))"
  by (simp add: PrepareTaskData_def newApiClient_def loadScopeConfig_def openRemoteDb_def
      finishTaskData_def Let_def exampleTaskCtx_def exampleConnection_def getZentaoHomePage_def
      remoteDbConfig_def withDbDefaults_def viper_Set_def viper_New_def exampleDbConfig_def
      exampleTaskData_def)

lemma exampleRun_strict:
  "PrepareTaskData (exampleStrictTaskCtx (exampleConnection\<lparr>Endpoint := []\<rparr>)) 0 =
     ([CallFirstById 1, CallNewZentaoApiClient (exampleConnection\<lparr>Endpoint := []\<rparr>)], None,
      Some (Wrap Default (ErrorString ''invalid endpoint'') ''unable to get Zentao API client instance: %v''))"
  by (simp add: PrepareTaskData_def newApiClient_def exampleStrictTaskCtx_def exampleTaskCtx_def)

lemma exampleRun_store_error:
  "PrepareTaskData
     (exampleTaskCtx False exampleConnection (None, Some (ErrorString ''connection refused''))) 5 =
     ([CallFirstById 1, CallNewZentaoApiClient exampleConnection, CallDalFirst 5,
       CallNewGormDb exampleDbConfig],
      Some (exampleTaskData\<lparr>Options := \<lparr>ConnectionId = 1, ScopeConfigId = 5, ScopeConfig = None\<rparr>\<rparr>),
      None)"
  using remoteDbConfig_example[of False exampleConnection "(None, Some (ErrorString ''connection refused''))"]
  by (simp add: PrepareTaskData_def newApiClient_def loadScopeConfig_def openRemoteDb_def
      finishTaskData_def Let_def homePage_documented exampleConnection_fields exampleTaskCtx_def
      exampleTaskData_def)

lemma exampleRun_skip:
  "PrepareTaskData (exampleTaskCtx True exampleConnection (None, None)) 0 =
     ([CallFirstById 1], Some (exampleTaskData\<lparr>ApiClient := None, RemoteDb := None\<rparr>), None)"
  by (simp add: PrepareTaskData_def newApiClient_def loadScopeConfig_def openRemoteDb_def
      finishTaskData_def Let_def homePage_documented exampleConnection_fields exampleTaskCtx_def
      exampleTaskData_def)

section \<open>Acquiring data: API client and mirror database\<close>

text \<open>
  C1, as amended. In every run with \<open>SkipCollectors = false\<close> that has decoded its options
  and found its connection, \<open>PrepareTaskData\<close> constructs the HTTP API client whether or not
  the connection has a mirror-database URL; a failure to construct it ends the run with no
  data. With an empty \<open>DbUrl\<close> no database connection is attempted and the task data has
  no mirror-database handle. With a non-empty \<open>DbUrl\<close> the mirror database is opened in
  addition, so that task data, when returned, holds both the client and the database
  handle. The specification has the two as exclusive modes.
\<close>

theorem PrepareTaskData_collecting_run:
  assumes skip: "\<not> SkipCollectors taskCtx"
    and op: "DecodeAndValidateTaskOptions taskCtx options = Inr op"
    and connection: "FirstById taskCtx (ConnectionId op) = Inr connection"
    and run: "PrepareTaskData taskCtx options = (calls, data, err)"
  shows "CallNewZentaoApiClient connection \<in> set calls
       \<and> (\<forall>e. NewZentaoApiClient taskCtx connection = Inl e \<longrightarrow>
              data = None \<and> err = Some (Wrap Default e ''unable to get Zentao API client instance: %v''))
       \<and> (\<forall>td. data = Some td \<longrightarrow>
              (\<exists>client. NewZentaoApiClient taskCtx connection = Inr client \<and> ApiClient td = Some client))
       \<and> (DbUrl connection = [] \<longrightarrow>
              (\<forall>v. CallNewGormDb v \<notin> set calls) \<and> (\<forall>td. data = Some td \<longrightarrow> RemoteDb td = None))
       \<and> (DbUrl connection \<noteq> [] \<longrightarrow>
              (\<forall>td. data = Some td \<longrightarrow>
                 CallNewGormDb (remoteDbConfig (withDbDefaults taskCtx connection)) \<in> set calls
                 \<and> (\<exists>db. NewGormDb taskCtx (remoteDbConfig (withDbDefaults taskCtx connection)) = Inr db
                        \<and> RemoteDb td = Some db)))"
  using run
proof (cases rule: PrepareTaskData_cases)
  case (decode_failed e)
  with op show ?thesis by simp
next
  case (connection_failed op' e)
  with op connection show ?thesis by simp
next
  case (client_failed op' connection' calls1 e)
  with op connection have s1: "newApiClient taskCtx connection = (calls1, Inl e)" by simp
  from newApiClient_result[OF s1] skip client_failed(4,5,6) show ?thesis
    by (auto split: sum.splits)
next
  case (scope_config_failed op' connection' calls1 apiClient calls2 e)
  with op connection have s1: "newApiClient taskCtx connection = (calls1, Inr apiClient)"
    and s2: "loadScopeConfig taskCtx op = (calls2, Inl e)" by simp_all
  from newApiClient_result[OF s1] loadScopeConfig_calls[OF s2] skip scope_config_failed(5,6,7)
  show ?thesis by (auto split: sum.splits)
next
  case (remote_db_failed op' connection' calls1 apiClient calls2 op'' calls3 e)
  with op connection have s1: "newApiClient taskCtx connection = (calls1, Inr apiClient)"
    and s2: "loadScopeConfig taskCtx op = (calls2, Inr op'')"
    and s3: "openRemoteDb taskCtx connection = (calls3, Inl e)" by simp_all
  from newApiClient_result[OF s1] loadScopeConfig_calls[OF s2] openRemoteDb_result[OF s3] skip
    remote_db_failed(6,7,8)
  show ?thesis by (auto split: sum.splits if_splits)
next
  case (finished op' connection' calls1 apiClient calls2 op'' calls3 remoteDb)
  with op connection have s1: "newApiClient taskCtx connection = (calls1, Inr apiClient)"
    and s2: "loadScopeConfig taskCtx op = (calls2, Inr op'')"
    and s3: "openRemoteDb taskCtx connection = (calls3, Inr remoteDb)"
    and s4: "finishTaskData taskCtx connection op'' apiClient remoteDb = (data, err)" by simp_all
  from newApiClient_result[OF s1] loadScopeConfig_calls[OF s2] openRemoteDb_result[OF s3]
    finishTaskData_data[OF s4] skip finished(6)
  show ?thesis by (auto split: sum.splits if_splits)
qed

theorem PrepareTaskData_collecting_run_witness:
  "(CallNewZentaoApiClient exampleConnection
      \<in> set [CallFirstById 1, CallNewZentaoApiClient exampleConnection, CallNewGormDb exampleDbConfig]
    \<and> (\<exists>client. NewZentaoApiClient (exampleTaskCtx False exampleConnection (None, None)) exampleConnection
                   = Inr client \<and> ApiClient exampleTaskData = Some client)
    \<and> (\<exists>db. NewGormDb (exampleTaskCtx False exampleConnection (None, None)) exampleDbConfig = Inr db
             \<and> RemoteDb exampleTaskData = Some db))
   \<and> (CallNewZentaoApiClient (exampleConnection\<lparr>DbUrl := []\<rparr>)
        \<in> set [CallFirstById 1, CallNewZentaoApiClient (exampleConnection\<lparr>DbUrl := []\<rparr>)]
      \<and> CallNewGormDb exampleDbConfig
        \<notin> set [CallFirstById 1, CallNewZentaoApiClient (exampleConnection\<lparr>DbUrl := []\<rparr>)]
      \<and> RemoteDb (exampleTaskData\<lparr>RemoteDb := None\<rparr>) = None)"
proof (rule conjI)
  let ?ctx = "exampleTaskCtx False exampleConnection (None, None)"
  have skip: "\<not> SkipCollectors ?ctx" by (simp add: exampleTaskCtx_facts)
  have op: "DecodeAndValidateTaskOptions ?ctx 0 = Inr \<lparr>ConnectionId = 1, ScopeConfigId = 0, ScopeConfig = None\<rparr>"
    by (simp add: exampleTaskCtx_facts)
  have connection:
    "FirstById ?ctx (ConnectionId \<lparr>ConnectionId = 1, ScopeConfigId = 0, ScopeConfig = (None :: nat option)\<rparr>)
      = Inr exampleConnection"
    by (simp add: exampleTaskCtx_facts)
  from PrepareTaskData_collecting_run[OF skip op connection exampleRun_mirror]
  show "CallNewZentaoApiClient exampleConnection
      \<in> set [CallFirstById 1, CallNewZentaoApiClient exampleConnection, CallNewGormDb exampleDbConfig]
    \<and> (\<exists>client. NewZentaoApiClient ?ctx exampleConnection = Inr client
                   \<and> ApiClient exampleTaskData = Some client)
    \<and> (\<exists>db. NewGormDb ?ctx exampleDbConfig = Inr db \<and> RemoteDb exampleTaskData = Some db)"
    using exampleConnection_fields(2) remoteDbConfig_example[of False exampleConnection "(None, None)"]
    by simp
next
  let ?conn = "exampleConnection\<lparr>DbUrl := []\<rparr>"
  let ?ctx = "exampleTaskCtx False ?conn (None, None)"
  have skip: "\<not> SkipCollectors ?ctx" by (simp add: exampleTaskCtx_facts)
  have op: "DecodeAndValidateTaskOptions ?ctx 0 = Inr \<lparr>ConnectionId = 1, ScopeConfigId = 0, ScopeConfig = None\<rparr>"
    by (simp add: exampleTaskCtx_facts)
  have connection:
    "FirstById ?ctx (ConnectionId \<lparr>ConnectionId = 1, ScopeConfigId = 0, ScopeConfig = (None :: nat option)\<rparr>)
      = Inr ?conn"
    by (simp add: exampleTaskCtx_facts)
  have url: "DbUrl ?conn = []" by simp
  from PrepareTaskData_collecting_run[OF skip op connection exampleRun_http] url
  show "CallNewZentaoApiClient ?conn \<in> set [CallFirstById 1, CallNewZentaoApiClient ?conn]
      \<and> CallNewGormDb exampleDbConfig \<notin> set [CallFirstById 1, CallNewZentaoApiClient ?conn]
      \<and> RemoteDb (exampleTaskData\<lparr>RemoteDb := None\<rparr>) = None"
    by simp
qed

text \<open>
  A run with a mirror-database URL and \<open>SkipCollectors = false\<close> constructs the API
  client and keeps it next to the database handle.
\<close>

theorem PrepareTaskData_mirror_counterexample:
  "DbUrl exampleConnection \<noteq> []
   \<and> \<not> SkipCollectors (exampleTaskCtx False exampleConnection (None, None))
   \<and> PrepareTaskData (exampleTaskCtx False exampleConnection (None, None)) 0 =
       ([CallFirstById 1, CallNewZentaoApiClient exampleConnection, CallNewGormDb exampleDbConfig],
        Some exampleTaskData, None)
   \<and> ApiClient exampleTaskData = Some \<lparr>GetEndpoint = ''http://54.158.1.10:30001/api.php/v1/''\<rparr>
   \<and> RemoteDb exampleTaskData = Some 7"
  by (simp add: exampleRun_mirror exampleConnection_fields exampleTaskCtx_facts exampleTaskData_def)

text \<open>
  C7. When a run opens a mirror database, the configuration handed to \<open>runner.NewGormDb\<close>
  is built from the connection after its unset settings have been filled in: an empty
  logging level becomes \<open>DB_LOGGING_LEVEL\<close>, a zero idle-connection count becomes
  \<open>DB_IDLE_CONNS\<close>, a zero maximum becomes \<open>DB_MAX_CONNS\<close>, and a setting the connection
  has is kept. The maximum is stored in the configuration under the key \<open>DbMaxConns\<close>,
  as line 233 writes it.
\<close>

theorem PrepareTaskData_mirror_db_settings:
  assumes op: "DecodeAndValidateTaskOptions taskCtx options = Inr op"
    and connection: "FirstById taskCtx (ConnectionId op) = Inr connection"
    and run: "PrepareTaskData taskCtx options = (calls, data, err)"
    and opened: "CallNewGormDb v \<in> set calls"
  shows "v = remoteDbConfig (withDbDefaults taskCtx connection)
       \<and> DbLoggingLevel (withDbDefaults taskCtx connection) =
           (if DbLoggingLevel connection = [] then GetConfig taskCtx ''DB_LOGGING_LEVEL''
            else DbLoggingLevel connection)
       \<and> DbIdleConns (withDbDefaults taskCtx connection) =
           (if DbIdleConns connection = 0 then GetInt taskCtx ''DB_IDLE_CONNS''
            else DbIdleConns connection)
       \<and> DbMaxConns (withDbDefaults taskCtx connection) =
           (if DbMaxConns connection = 0 then GetInt taskCtx ''DB_MAX_CONNS''
            else DbMaxConns connection)
       \<and> DbUrl (withDbDefaults taskCtx connection) = DbUrl connection
       \<and> map_of v ''DB_URL'' = Some (StringValue (DbUrl connection))
       \<and> map_of v ''DB_LOGGING_LEVEL'' =
           Some (StringValue (DbLoggingLevel (withDbDefaults taskCtx connection)))
       \<and> map_of v ''DB_IDLE_CONNS'' = Some (IntValue (DbIdleConns (withDbDefaults taskCtx connection)))
       \<and> map_of v ''DbMaxConns'' = Some (IntValue (DbMaxConns (withDbDefaults taskCtx connection)))
       \<and> map_of v ''DB_MAX_CONNS'' = None"
proof -
  from PrepareTaskData_opened[OF assms] have v: "v = remoteDbConfig (withDbDefaults taskCtx connection)"
    by simp
  show ?thesis
    unfolding v by (simp add: withDbDefaults_fields remoteDbConfig_lookup)
qed

theorem PrepareTaskData_mirror_db_settings_witness:
  "exampleDbConfig = remoteDbConfig (withDbDefaults (exampleTaskCtx False exampleConnection (None, None)) exampleConnection)
   \<and> DbLoggingLevel exampleConnection = []
   \<and> map_of exampleDbConfig ''DB_LOGGING_LEVEL'' = Some (StringValue ''Error'')
   \<and> DbIdleConns exampleConnection = 0
   \<and> map_of exampleDbConfig ''DB_IDLE_CONNS'' = Some (IntValue 10)
   \<and> DbMaxConns exampleConnection = 25
   \<and> map_of exampleDbConfig ''DbMaxConns'' = Some (IntValue 25)"
proof -
  let ?ctx = "exampleTaskCtx False exampleConnection (None, None)"
  let ?op = "\<lparr>ConnectionId = 1, ScopeConfigId = 0, ScopeConfig = (None :: nat option)\<rparr>"
  have op: "DecodeAndValidateTaskOptions ?ctx 0 = Inr ?op" by (simp add: exampleTaskCtx_facts)
  have connection: "FirstById ?ctx (ConnectionId ?op) = Inr exampleConnection"
    by (simp add: exampleTaskCtx_facts)
  have opened: "CallNewGormDb exampleDbConfig
      \<in> set [CallFirstById 1, CallNewZentaoApiClient exampleConnection, CallNewGormDb exampleDbConfig]"
    by simp
  from PrepareTaskData_mirror_db_settings[OF op connection exampleRun_mirror opened]
  show ?thesis
    by (simp add: withDbDefaults_fields) (simp add: exampleConnection_def exampleTaskCtx_def)
qed

text \<open>
  C6. In every run with \<open>SkipCollectors = true\<close>, \<open>PrepareTaskData\<close> calls neither the API
  client constructor nor \<open>runner.NewGormDb\<close>. Task data, when returned, has no API client
  and no mirror-database handle, empty sets of stories, tasks and bugs, the account cache
  of the connection id, the options with the scope configuration as loaded, and the home
  page of the connection's endpoint. It is returned, with no error, whenever the options
  decode, the connection is found, the scope configuration load does not end the run and
  the home page resolves.
\<close>

theorem PrepareTaskData_skip_collectors:
  assumes skip: "SkipCollectors taskCtx"
    and run: "PrepareTaskData taskCtx options = (calls, data, err)"
  shows "(\<forall>connection. CallNewZentaoApiClient connection \<notin> set calls)
       \<and> (\<forall>v. CallNewGormDb v \<notin> set calls)
       \<and> (\<forall>td. data = Some td \<longrightarrow>
              ApiClient td = None \<and> RemoteDb td = None \<and> heldHandles td = []
              \<and> Stories td = {} \<and> Tasks td = {} \<and> Bugs td = {}
              \<and> (\<exists>op connection calls2.
                     DecodeAndValidateTaskOptions taskCtx options = Inr op
                   \<and> FirstById taskCtx (ConnectionId op) = Inr connection
                   \<and> loadScopeConfig taskCtx op = (calls2, Inr (Options td))
                   \<and> AccountCache td = NewAccountCache (ConnectionId op)
                   \<and> (case getZentaoHomePage (UrlParse taskCtx) (Endpoint connection) of
                         Inl e \<Rightarrow> err = Some (Convert e) \<and> HomePageURL td = []
                       | Inr homepage \<Rightarrow> err = None \<and> HomePageURL td = homepage)))
       \<and> (\<forall>op connection calls2 op' homepage.
              DecodeAndValidateTaskOptions taskCtx options = Inr op
            \<and> FirstById taskCtx (ConnectionId op) = Inr connection
            \<and> loadScopeConfig taskCtx op = (calls2, Inr op')
            \<and> getZentaoHomePage (UrlParse taskCtx) (Endpoint connection) = Inr homepage \<longrightarrow>
              data = Some \<lparr>Options = op', ApiClient = None, Stories = {}, Tasks = {}, Bugs = {},
                           AccountCache = NewAccountCache (ConnectionId op), RemoteDb = None,
                           HomePageURL = homepage\<rparr>
              \<and> err = None)"
  using run
proof (cases rule: PrepareTaskData_cases)
  case (decode_failed e)
  then show ?thesis by simp
next
  case (connection_failed op e)
  then show ?thesis by auto
next
  case (client_failed op connection calls1 e)
  from newApiClient_result[OF client_failed(3)] skip show ?thesis by simp
next
  case (scope_config_failed op connection calls1 apiClient calls2 e)
  from newApiClient_result[OF scope_config_failed(3)] loadScopeConfig_calls[OF scope_config_failed(4)]
    skip scope_config_failed(1,2,4,5,6,7)
  show ?thesis by auto
next
  case (remote_db_failed op connection calls1 apiClient calls2 op' calls3 e)
  from openRemoteDb_result[OF remote_db_failed(5)] skip show ?thesis by simp
next
  case (finished op connection calls1 apiClient calls2 op' calls3 remoteDb)
  from newApiClient_result[OF finished(3)] skip have a: "calls1 = []" "apiClient = None" by simp_all
  from openRemoteDb_result[OF finished(5)] skip have d: "calls3 = []" "remoteDb = None" by simp_all
  note c = loadScopeConfig_calls[OF finished(4)]
  note i = loadScopeConfig_ConnectionId[OF finished(4)]
  from finishTaskData_result[OF finished(7)[unfolded a d]]
  have r: "(case getZentaoHomePage (UrlParse taskCtx) (Endpoint connection) of
        Inl e \<Rightarrow>
          data = Some \<lparr>Options = op', ApiClient = None, Stories = {}, Tasks = {}, Bugs = {},
                       AccountCache = NewAccountCache (ConnectionId op'), RemoteDb = None,
                       HomePageURL = []\<rparr>
          \<and> err = Some (Convert e)
      | Inr homepage \<Rightarrow>
          data = Some \<lparr>Options = op', ApiClient = None, Stories = {}, Tasks = {}, Bugs = {},
                       AccountCache = NewAccountCache (ConnectionId op'), RemoteDb = None,
                       HomePageURL = homepage\<rparr>
          \<and> err = None)" by simp
  have A: "\<forall>connection. CallNewZentaoApiClient connection \<notin> set calls"
    using finished(6) a d c by auto
  have B: "\<forall>v. CallNewGormDb v \<notin> set calls"
    using finished(6) a d c by auto
  have C: "\<forall>td. data = Some td \<longrightarrow>
              ApiClient td = None \<and> RemoteDb td = None \<and> heldHandles td = []
              \<and> Stories td = {} \<and> Tasks td = {} \<and> Bugs td = {}
              \<and> (\<exists>op connection calls2.
                     DecodeAndValidateTaskOptions taskCtx options = Inr op
                   \<and> FirstById taskCtx (ConnectionId op) = Inr connection
                   \<and> loadScopeConfig taskCtx op = (calls2, Inr (Options td))
                   \<and> AccountCache td = NewAccountCache (ConnectionId op)
                   \<and> (case getZentaoHomePage (UrlParse taskCtx) (Endpoint connection) of
                         Inl e \<Rightarrow> err = Some (Convert e) \<and> HomePageURL td = []
                       | Inr homepage \<Rightarrow> err = None \<and> HomePageURL td = homepage))"
  proof (intro allI impI)
    fix td assume td: "data = Some td"
    with r i have f: "ApiClient td = None" "RemoteDb td = None" "Stories td = {}" "Tasks td = {}"
      "Bugs td = {}" "Options td = op'" "AccountCache td = NewAccountCache (ConnectionId op)"
      "(case getZentaoHomePage (UrlParse taskCtx) (Endpoint connection) of
                         Inl e \<Rightarrow> err = Some (Convert e) \<and> HomePageURL td = []
                       | Inr homepage \<Rightarrow> err = None \<and> HomePageURL td = homepage)"
      by (auto split: sum.splits)
    from f(1,2) have h: "heldHandles td = []" by (simp add: heldHandles_def)
    from finished(1,2,4) f h show "ApiClient td = None \<and> RemoteDb td = None \<and> heldHandles td = []
              \<and> Stories td = {} \<and> Tasks td = {} \<and> Bugs td = {}
              \<and> (\<exists>op connection calls2.
                     DecodeAndValidateTaskOptions taskCtx options = Inr op
                   \<and> FirstById taskCtx (ConnectionId op) = Inr connection
                   \<and> loadScopeConfig taskCtx op = (calls2, Inr (Options td))
                   \<and> AccountCache td = NewAccountCache (ConnectionId op)
                   \<and> (case getZentaoHomePage (UrlParse taskCtx) (Endpoint connection) of
                         Inl e \<Rightarrow> err = Some (Convert e) \<and> HomePageURL td = []
                       | Inr homepage \<Rightarrow> err = None \<and> HomePageURL td = homepage))"
      by blast
  qed
  have D: "\<forall>op connection calls2 op' homepage.
              DecodeAndValidateTaskOptions taskCtx options = Inr op
            \<and> FirstById taskCtx (ConnectionId op) = Inr connection
            \<and> loadScopeConfig taskCtx op = (calls2, Inr op')
            \<and> getZentaoHomePage (UrlParse taskCtx) (Endpoint connection) = Inr homepage \<longrightarrow>
              data = Some \<lparr>Options = op', ApiClient = None, Stories = {}, Tasks = {}, Bugs = {},
                           AccountCache = NewAccountCache (ConnectionId op), RemoteDb = None,
                           HomePageURL = homepage\<rparr>
              \<and> err = None"
    using finished(1,2,4) r i by auto
  from A B C D show ?thesis by blast
qed

theorem PrepareTaskData_skip_collectors_witness:
  "CallNewZentaoApiClient exampleConnection \<notin> set [CallFirstById 1]
   \<and> CallNewGormDb exampleDbConfig \<notin> set [CallFirstById 1]
   \<and> heldHandles (exampleTaskData\<lparr>ApiClient := None, RemoteDb := None\<rparr>) = []
   \<and> HomePageURL (exampleTaskData\<lparr>ApiClient := None, RemoteDb := None\<rparr>) = ''http://54.158.1.10:30001''"
proof -
  have skip: "SkipCollectors (exampleTaskCtx True exampleConnection (None, None))"
    by (simp add: exampleTaskCtx_facts)
  from PrepareTaskData_skip_collectors[OF skip exampleRun_skip]
  show ?thesis by (simp add: exampleTaskData_def)
qed

section \<open>The scope configuration\<close>

text \<open>
  C3. The specification: when the options carry a scope configuration id and no value, the
  configuration is loaded; a load that fails with "not found" is a \<open>BadInput\<close> error and
  any other storage failure ends the run. The first half holds
  (\<open>PrepareTaskData_scope_config_not_found\<close>). The second does not: line 201 returns only
  when the error is "not found", and any other error is dropped
  (\<open>PrepareTaskData_scope_config_other_error\<close>). In the run below the store answers the load of configuration 5 with
  "connection refused"; \<open>PrepareTaskData\<close> goes on, opens the mirror database and returns
  task data without a scope configuration and without an error.
\<close>

theorem PrepareTaskData_store_error_ignored:
  "DalFirst (exampleTaskCtx False exampleConnection (None, Some (ErrorString ''connection refused''))) 5
     = (None, Some (ErrorString ''connection refused''))
   \<and> \<not> IsErrorNotFound (exampleTaskCtx False exampleConnection (None, Some (ErrorString ''connection refused'')))
         (ErrorString ''connection refused'')
   \<and> PrepareTaskData
       (exampleTaskCtx False exampleConnection (None, Some (ErrorString ''connection refused''))) 5 =
       ([CallFirstById 1, CallNewZentaoApiClient exampleConnection, CallDalFirst 5,
         CallNewGormDb exampleDbConfig],
        Some (exampleTaskData\<lparr>Options := \<lparr>ConnectionId = 1, ScopeConfigId = 5, ScopeConfig = None\<rparr>\<rparr>),
        None)"
  by (simp add: exampleRun_store_error exampleTaskCtx_facts)

section \<open>Failure of the home page\<close>

text \<open>
  C4, as amended. The empty endpoint has no home page: \<open>getZentaoHomePage\<close> answers
  \<open>errors.Default.New("empty endpoint")\<close>. In a run with \<open>SkipCollectors = false\<close> that has
  decoded its options and found its connection, the acquirers are constructed before the
  home page is resolved, and the home page is resolved from the endpoint of the API client.
  If the client cannot be constructed the run ends there, with that error and no data. If
  the run returns the home page's error, the client has been constructed and is in the task
  data returned with the error; with a non-empty \<open>DbUrl\<close> the mirror database has been
  opened too and its handle is in that task data, with an empty \<open>DbUrl\<close> there is none.
  If the client's endpoint is empty, a run that returns task data returns the error
  "empty endpoint" with it. The specification has no acquirer constructed in this case.
\<close>

theorem PrepareTaskData_empty_endpoint:
  "getZentaoHomePage urlParse [] = Inl (New Default ''empty endpoint'')
   \<and> (\<not> SkipCollectors taskCtx
        \<and> DecodeAndValidateTaskOptions taskCtx options = Inr op
        \<and> FirstById taskCtx (ConnectionId op) = Inr connection
        \<and> PrepareTaskData taskCtx options = (calls, data, err) \<longrightarrow>
          CallNewZentaoApiClient connection \<in> set calls
          \<and> (\<forall>e. NewZentaoApiClient taskCtx connection = Inl e \<longrightarrow>
                 calls = [CallFirstById (ConnectionId op), CallNewZentaoApiClient connection]
                 \<and> data = None
                 \<and> err = Some (Wrap Default e ''unable to get Zentao API client instance: %v''))
          \<and> (\<forall>e. err = Some (Convert e) \<longrightarrow>
                 (\<exists>td client. data = Some td \<and> NewZentaoApiClient taskCtx connection = Inr client
                    \<and> ApiClient td = Some client
                    \<and> getZentaoHomePage (UrlParse taskCtx) (GetEndpoint client) = Inl e
                    \<and> (if DbUrl connection = []
                        then RemoteDb td = None
                        else CallNewGormDb (remoteDbConfig (withDbDefaults taskCtx connection)) \<in> set calls
                             \<and> (\<exists>db. NewGormDb taskCtx (remoteDbConfig (withDbDefaults taskCtx connection))
                                        = Inr db
                                    \<and> RemoteDb td = Some db))))
          \<and> (\<forall>client td. NewZentaoApiClient taskCtx connection = Inr client \<and> GetEndpoint client = []
                 \<and> data = Some td \<longrightarrow>
                 ApiClient td = Some client \<and> err = Some (Convert (New Default ''empty endpoint''))))"
  (is "_ \<and> (?A \<longrightarrow> ?B)")
proof (rule conjI)
  show "getZentaoHomePage urlParse [] = Inl (New Default ''empty endpoint'')"
    by (simp add: getZentaoHomePage_def)
next
  show "?A \<longrightarrow> ?B"
  proof (rule impI)
  assume a: ?A
  then have skip: "\<not> SkipCollectors taskCtx"
    and op: "DecodeAndValidateTaskOptions taskCtx options = Inr op"
    and connection: "FirstById taskCtx (ConnectionId op) = Inr connection"
    and run: "PrepareTaskData taskCtx options = (calls, data, err)" by simp_all
  from run show ?B
  proof (cases rule: PrepareTaskData_cases)
    case (decode_failed e)
    with op show ?thesis by simp
  next
    case (connection_failed op' e)
    with op connection show ?thesis by simp
  next
    case (client_failed op' connection' calls1 e')
    with op connection have s1: "newApiClient taskCtx connection = (calls1, Inl e')"
      and o: "op' = op" by simp_all
    from newApiClient_result[OF s1] skip client_failed(4,5,6) o show ?thesis
      by (auto split: sum.splits)
  next
    case (scope_config_failed op' connection' calls1 apiClient calls2 e')
    with op connection have s1: "newApiClient taskCtx connection = (calls1, Inr apiClient)" by simp
    from newApiClient_result[OF s1] loadScopeConfig_error[OF scope_config_failed(4)] skip
      scope_config_failed(5,6,7)
    show ?thesis by (auto split: sum.splits)
  next
    case (remote_db_failed op' connection' calls1 apiClient calls2 op'' calls3 e')
    with op connection have s1: "newApiClient taskCtx connection = (calls1, Inr apiClient)"
      and s3: "openRemoteDb taskCtx connection = (calls3, Inl e')" by simp_all
    from newApiClient_result[OF s1] openRemoteDb_result[OF s3] skip remote_db_failed(6,7,8)
    show ?thesis by (auto split: sum.splits if_splits)
  next
    case (finished op' connection' calls1 apiClient calls2 op'' calls3 remoteDb)
    with op connection have s1: "newApiClient taskCtx connection = (calls1, Inr apiClient)"
      and s3: "openRemoteDb taskCtx connection = (calls3, Inr remoteDb)"
      and s4: "finishTaskData taskCtx connection op'' apiClient remoteDb = (data, err)" by simp_all
    from newApiClient_result[OF s1] skip obtain client where
      c: "calls1 = [CallNewZentaoApiClient connection]" "NewZentaoApiClient taskCtx connection = Inr client"
         "apiClient = Some client"
      by (auto split: sum.splits)
    from openRemoteDb_result[OF s3] skip have
      d: "if DbUrl connection = [] then calls3 = [] \<and> remoteDb = None
          else calls3 = [CallNewGormDb (remoteDbConfig (withDbDefaults taskCtx connection))]
               \<and> (\<exists>db. NewGormDb taskCtx (remoteDbConfig (withDbDefaults taskCtx connection)) = Inr db
                      \<and> remoteDb = Some db)"
      by (auto split: sum.splits if_splits)
    from finishTaskData_result[OF s4] c(3) have
      r: "case getZentaoHomePage (UrlParse taskCtx) (GetEndpoint client) of
            Inl e \<Rightarrow> (\<exists>td. data = Some td \<and> ApiClient td = Some client \<and> RemoteDb td = remoteDb)
                      \<and> err = Some (Convert e)
          | Inr homepage \<Rightarrow> (\<exists>td. data = Some td \<and> ApiClient td = Some client \<and> RemoteDb td = remoteDb)
                      \<and> err = None"
      by (auto split: sum.splits)
    have A: "CallNewZentaoApiClient connection \<in> set calls" using finished(6) c(1) by simp
    have B: "\<forall>e. NewZentaoApiClient taskCtx connection = Inl e \<longrightarrow>
                 calls = [CallFirstById (ConnectionId op), CallNewZentaoApiClient connection]
                 \<and> data = None
                 \<and> err = Some (Wrap Default e ''unable to get Zentao API client instance: %v'')"
      using c(2) by simp
    have C: "\<forall>e. err = Some (Convert e) \<longrightarrow>
                 (\<exists>td client. data = Some td \<and> NewZentaoApiClient taskCtx connection = Inr client
                    \<and> ApiClient td = Some client
                    \<and> getZentaoHomePage (UrlParse taskCtx) (GetEndpoint client) = Inl e
                    \<and> (if DbUrl connection = []
                        then RemoteDb td = None
                        else CallNewGormDb (remoteDbConfig (withDbDefaults taskCtx connection)) \<in> set calls
                             \<and> (\<exists>db. NewGormDb taskCtx (remoteDbConfig (withDbDefaults taskCtx connection))
                                        = Inr db
                                    \<and> RemoteDb td = Some db)))"
      using r d c(2) finished(6) by (auto split: sum.splits if_splits)
    have D: "\<forall>client td. NewZentaoApiClient taskCtx connection = Inr client \<and> GetEndpoint client = []
                 \<and> data = Some td \<longrightarrow>
                 ApiClient td = Some client \<and> err = Some (Convert (New Default ''empty endpoint''))"
      using r c(2) by (auto simp: getZentaoHomePage_def split: sum.splits)
    from A B C D show ?thesis by blast
  qed
  qed
qed

theorem PrepareTaskData_empty_endpoint_witness:
  "getZentaoHomePage url_Parse [] = Inl (New Default ''empty endpoint'')
   \<and> CallNewZentaoApiClient (exampleConnection\<lparr>Endpoint := []\<rparr>)
       \<in> set [CallFirstById 1, CallNewZentaoApiClient (exampleConnection\<lparr>Endpoint := []\<rparr>),
               CallNewGormDb exampleDbConfig]
   \<and> (\<exists>td client db.
          Some (exampleTaskData\<lparr>ApiClient := Some \<lparr>GetEndpoint = []\<rparr>, HomePageURL := []\<rparr>) = Some td
        \<and> ApiClient td = Some client \<and> RemoteDb td = Some db)"
proof -
  let ?conn = "exampleConnection\<lparr>Endpoint := []\<rparr>"
  let ?ctx = "exampleTaskCtx False ?conn (None, None)"
  let ?op = "\<lparr>ConnectionId = 1, ScopeConfigId = 0, ScopeConfig = (None :: nat option)\<rparr>"
  have pre: "\<not> SkipCollectors ?ctx
        \<and> DecodeAndValidateTaskOptions ?ctx 0 = Inr ?op
        \<and> FirstById ?ctx (ConnectionId ?op) = Inr ?conn
        \<and> PrepareTaskData ?ctx 0 =
            ([CallFirstById 1, CallNewZentaoApiClient ?conn, CallNewGormDb exampleDbConfig],
             Some (exampleTaskData\<lparr>ApiClient := Some \<lparr>GetEndpoint = []\<rparr>, HomePageURL := []\<rparr>),
             Some (Convert (New Default ''empty endpoint'')))"
    by (simp add: exampleTaskCtx_facts exampleRun_empty_endpoint)
  note t = PrepareTaskData_empty_endpoint[of url_Parse ?ctx 0 ?op ?conn
      "[CallFirstById 1, CallNewZentaoApiClient ?conn, CallNewGormDb exampleDbConfig]"
      "Some (exampleTaskData\<lparr>ApiClient := Some \<lparr>GetEndpoint = []\<rparr>, HomePageURL := []\<rparr>)"
      "Some (Convert (New Default ''empty endpoint''))"]
  from t have h: "getZentaoHomePage url_Parse [] = Inl (New Default ''empty endpoint'')"
    by (rule conjunct1)
  from t[THEN conjunct2, THEN mp, OF pre]
  have c: "CallNewZentaoApiClient ?conn
             \<in> set [CallFirstById 1, CallNewZentaoApiClient ?conn, CallNewGormDb exampleDbConfig]"
    and e: "\<forall>e. Some (Convert (New Default ''empty endpoint'')) = Some (Convert e) \<longrightarrow>
              (\<exists>td client.
                  Some (exampleTaskData\<lparr>ApiClient := Some \<lparr>GetEndpoint = []\<rparr>, HomePageURL := []\<rparr>) = Some td
                \<and> NewZentaoApiClient ?ctx ?conn = Inr client
                \<and> ApiClient td = Some client
                \<and> getZentaoHomePage (UrlParse ?ctx) (GetEndpoint client) = Inl e
                \<and> (if DbUrl ?conn = []
                    then RemoteDb td = None
                    else CallNewGormDb (remoteDbConfig (withDbDefaults ?ctx ?conn))
                           \<in> set [CallFirstById 1, CallNewZentaoApiClient ?conn, CallNewGormDb exampleDbConfig]
                         \<and> (\<exists>db. NewGormDb ?ctx (remoteDbConfig (withDbDefaults ?ctx ?conn)) = Inr db
                                \<and> RemoteDb td = Some db)))"
    by blast+
  have u: "DbUrl ?conn \<noteq> []" by (simp add: exampleConnection_def)
  from e u have "\<exists>td client db.
          Some (exampleTaskData\<lparr>ApiClient := Some \<lparr>GetEndpoint = []\<rparr>, HomePageURL := []\<rparr>) = Some td
        \<and> ApiClient td = Some client \<and> RemoteDb td = Some db"
    by (simp add: exampleTaskData_def)
  with h c show ?thesis by (intro conjI)
qed

text \<open>
  A connection with an empty endpoint and a mirror-database URL, run with collectors. With
  a constructor that accepts the connection, the run fails at the home page with the API
  client constructed and the mirror database open. With a constructor that refuses it, the
  run fails at the constructor, and its error is not the home page's.
\<close>

theorem PrepareTaskData_empty_endpoint_counterexample:
  "Endpoint (exampleConnection\<lparr>Endpoint := []\<rparr>) = []
   \<and> \<not> SkipCollectors (exampleTaskCtx False (exampleConnection\<lparr>Endpoint := []\<rparr>) (None, None))
   \<and> PrepareTaskData (exampleTaskCtx False (exampleConnection\<lparr>Endpoint := []\<rparr>) (None, None)) 0 =
       ([CallFirstById 1, CallNewZentaoApiClient (exampleConnection\<lparr>Endpoint := []\<rparr>),
         CallNewGormDb exampleDbConfig],
        Some (exampleTaskData\<lparr>ApiClient := Some \<lparr>GetEndpoint = []\<rparr>, HomePageURL := []\<rparr>),
        Some (Convert (New Default ''empty endpoint'')))
   \<and> heldHandles (exampleTaskData\<lparr>ApiClient := Some \<lparr>GetEndpoint = []\<rparr>, HomePageURL := []\<rparr>)
       = [HttpClient \<lparr>GetEndpoint = []\<rparr>, MirrorDb 7]
   \<and> \<not> SkipCollectors (exampleStrictTaskCtx (exampleConnection\<lparr>Endpoint := []\<rparr>))
   \<and> PrepareTaskData (exampleStrictTaskCtx (exampleConnection\<lparr>Endpoint := []\<rparr>)) 0 =
       ([CallFirstById 1, CallNewZentaoApiClient (exampleConnection\<lparr>Endpoint := []\<rparr>)], None,
        Some (Wrap Default (ErrorString ''invalid endpoint'')
               ''unable to get Zentao API client instance: %v''))"
  by (simp add: exampleRun_empty_endpoint exampleRun_strict exampleTaskCtx_facts heldHandles_def
      exampleTaskData_def)
     (simp add: exampleStrictTaskCtx_def exampleTaskCtx_def)

text \<open>
  C9. When the options decode, the connection is found, the API client step, the scope
  configuration step and the mirror database step succeed and the home page fails with
  \<open>e\<close>, \<open>PrepareTaskData\<close> returns \<open>errors.Convert(e)\<close> together with the task data built so
  far: the options, the API client and the mirror-database handle as acquired, the empty
  sets, the account cache, and no home page.
\<close>

theorem PrepareTaskData_home_page_failure:
  assumes op: "DecodeAndValidateTaskOptions taskCtx options = Inr op"
    and connection: "FirstById taskCtx (ConnectionId op) = Inr connection"
    and s1: "newApiClient taskCtx connection = (calls1, Inr apiClient)"
    and s2: "loadScopeConfig taskCtx op = (calls2, Inr op')"
    and s3: "openRemoteDb taskCtx connection = (calls3, Inr remoteDb)"
    and home: "getZentaoHomePage (UrlParse taskCtx)
                 (case apiClient of Some client \<Rightarrow> GetEndpoint client | None \<Rightarrow> Endpoint connection)
               = Inl e"
  shows "PrepareTaskData taskCtx options =
           (CallFirstById (ConnectionId op) # calls1 @ calls2 @ calls3,
            Some \<lparr>Options = op', ApiClient = apiClient, Stories = {}, Tasks = {}, Bugs = {},
                  AccountCache = NewAccountCache (ConnectionId op), RemoteDb = remoteDb,
                  HomePageURL = []\<rparr>,
            Some (Convert e))"
proof -
  have "ConnectionId op' = ConnectionId op" using s2 by (rule loadScopeConfig_ConnectionId)
  with assms show ?thesis
    by (simp add: PrepareTaskData_def finishTaskData_def Let_def)
qed

theorem PrepareTaskData_home_page_failure_witness:
  "PrepareTaskData (exampleTaskCtx False (exampleConnection\<lparr>Endpoint := []\<rparr>) (None, None)) 0 =
     (CallFirstById 1 # [CallNewZentaoApiClient (exampleConnection\<lparr>Endpoint := []\<rparr>)] @ []
        @ [CallNewGormDb exampleDbConfig],
      Some \<lparr>Options = \<lparr>ConnectionId = 1, ScopeConfigId = 0, ScopeConfig = None\<rparr>,
            ApiClient = Some \<lparr>GetEndpoint = []\<rparr>, Stories = {}, Tasks = {}, Bugs = {},
            AccountCache = NewAccountCache 1, RemoteDb = Some 7, HomePageURL = []\<rparr>,
      Some (Convert (New Default ''empty endpoint'')))"
proof -
  let ?conn = "exampleConnection\<lparr>Endpoint := []\<rparr>"
  let ?ctx = "exampleTaskCtx False ?conn (None, None)"
  let ?op = "\<lparr>ConnectionId = 1, ScopeConfigId = 0, ScopeConfig = (None :: nat option)\<rparr>"
  have op: "DecodeAndValidateTaskOptions ?ctx 0 = Inr ?op" by (simp add: exampleTaskCtx_facts)
  have connection: "FirstById ?ctx (ConnectionId ?op) = Inr ?conn" by (simp add: exampleTaskCtx_facts)
  have s1: "newApiClient ?ctx ?conn = ([CallNewZentaoApiClient ?conn], Inr (Some \<lparr>GetEndpoint = []\<rparr>))"
    by (simp add: newApiClient_def exampleTaskCtx_facts)
  have s2: "loadScopeConfig ?ctx ?op = ([], Inr ?op)" by (simp add: loadScopeConfig_def)
  have s3: "openRemoteDb ?ctx ?conn = ([CallNewGormDb exampleDbConfig], Inr (Some 7))"
    by (simp add: openRemoteDb_def exampleTaskCtx_def exampleConnection_def Let_def
        remoteDbConfig_def withDbDefaults_def viper_Set_def viper_New_def exampleDbConfig_def)
  have home: "getZentaoHomePage (UrlParse ?ctx)
                 (case Some \<lparr>GetEndpoint = []\<rparr> of Some client \<Rightarrow> GetEndpoint client | None \<Rightarrow> Endpoint ?conn)
               = Inl (New Default ''empty endpoint'')"
    by (simp add: getZentaoHomePage_def)
  from PrepareTaskData_home_page_failure[OF op connection s1 s2 s3 home]
  show ?thesis by simp
qed

section \<open>Close\<close>

text \<open>
  What \<open>Close\<close> does with the API client: it releases the client when the task data has
  one, does nothing on task data without a client and on a nil pointer, and returns no
  error. A run with \<open>SkipCollectors = true\<close> leaves no handle and \<open>Close\<close> releases
  nothing; any other run that returns task data leaves a client, which \<open>Close\<close> releases.
\<close>

lemma Close_api_client:
  "Close taskCtxText (ZentaoData (Some td)) =
     (case ApiClient td of Some client \<Rightarrow> [HttpClient client] | None \<Rightarrow> [], None)"
  "Close taskCtxText (ZentaoData None) = ([], None)"
  by (simp_all add: Close_def split: option.splits)

lemma Close_after_skip:
  assumes "SkipCollectors taskCtx" and "PrepareTaskData taskCtx options = (calls, Some td, err)"
  shows "heldHandles td = []" and "Close taskCtxText (ZentaoData (Some td)) = ([], None)"
  using PrepareTaskData_skip_data[OF assms] by (simp_all add: heldHandles_def Close_def)

lemma Close_after_collect:
  assumes "\<not> SkipCollectors taskCtx" and "PrepareTaskData taskCtx options = (calls, Some td, err)"
  shows "\<exists>client. ApiClient td = Some client
           \<and> Close taskCtxText (ZentaoData (Some td)) = ([HttpClient client], None)"
  using PrepareTaskData_collect_data[OF assms] by (auto simp: Close_def)

text \<open>
  C5. The specification: \<open>Close\<close> releases the data acquirer whenever one was opened, with
  the HTTP client and with the mirror database alike, and is safe on task data without an
  acquirer. The halves about the HTTP client and about task data without an acquirer hold
  (\<open>Close_after_collect\<close>, \<open>Close_after_skip\<close>). The mirror database is never released:
  \<open>PrepareTaskData\<close> opens it at line 240 and \<open>Close\<close> releases the API client only. The
  example run with a mirror-database URL returns task data that holds the client and the
  database handle 7; \<open>Close\<close> on it releases the client and leaves the handle open.
\<close>

theorem Close_leaves_mirror_db_open:
  "PrepareTaskData (exampleTaskCtx False exampleConnection (None, None)) 0 =
     ([CallFirstById 1, CallNewZentaoApiClient exampleConnection, CallNewGormDb exampleDbConfig],
      Some exampleTaskData, None)
   \<and> heldHandles exampleTaskData =
       [HttpClient \<lparr>GetEndpoint = ''http://54.158.1.10:30001/api.php/v1/''\<rparr>, MirrorDb 7]
   \<and> Close [] (ZentaoData (Some exampleTaskData)) =
       ([HttpClient \<lparr>GetEndpoint = ''http://54.158.1.10:30001/api.php/v1/''\<rparr>], None)
   \<and> MirrorDb 7 \<notin> set (fst (Close [] (ZentaoData (Some exampleTaskData))))"
  by (simp add: exampleRun_mirror) (simp add: heldHandles_def Close_def exampleTaskData_def)

section \<open>The order of the subtasks\<close>

lemma place_first_three:
  "place SubTaskMetas ConvertProjectMeta = Some 0"
  "place SubTaskMetas CollectAccountMeta = Some 1"
  "place SubTaskMetas ExtractAccountMeta = Some 2"
  by (simp_all add: SubTaskMetas_def)

lemma place_others:
  "\<forall>u \<in> set SubTaskMetas. u \<noteq> ConvertProjectMeta \<longrightarrow>
     (case place SubTaskMetas u of Some j \<Rightarrow> 0 < j | None \<Rightarrow> False)"
  by code_simp

lemma place_other_families:
  "\<forall>u \<in> set SubTaskMetas. familyOf u \<noteq> Project \<and> familyOf u \<noteq> Account \<longrightarrow>
     (case place SubTaskMetas u of Some j \<Rightarrow> 2 < j | None \<Rightarrow> False)"
  by code_simp

lemma account_units:
  "kindOf u \<in> {CollectUnit, ExtractUnit} \<and> familyOf u = Account \<longleftrightarrow>
     u = CollectAccountMeta \<or> u = ExtractAccountMeta"
  by (cases u) simp_all

text \<open>
  C8. \<open>SubTaskMetas\<close> is a list of forty distinct units. Its first element is the unit that
  converts projects, so every other unit comes after it; and the units that collect and
  extract accounts come before every unit of a family other than projects and accounts.
\<close>

theorem SubTaskMetas_order:
  "length SubTaskMetas = 40 \<and> distinct SubTaskMetas
   \<and> hd SubTaskMetas = ConvertProjectMeta
   \<and> kindOf ConvertProjectMeta = ConvertUnit \<and> familyOf ConvertProjectMeta = Project
   \<and> (\<forall>u \<in> set SubTaskMetas. u \<noteq> ConvertProjectMeta \<longrightarrow>
         (\<exists>i j. place SubTaskMetas ConvertProjectMeta = Some i \<and> place SubTaskMetas u = Some j \<and> i < j))
   \<and> (\<forall>a \<in> set SubTaskMetas. \<forall>u \<in> set SubTaskMetas.
         familyOf a = Account \<and> kindOf a \<in> {CollectUnit, ExtractUnit}
         \<and> familyOf u \<noteq> Project \<and> familyOf u \<noteq> Account \<longrightarrow>
         (\<exists>i j. place SubTaskMetas a = Some i \<and> place SubTaskMetas u = Some j \<and> i < j))"
proof (intro conjI)
  show "length SubTaskMetas = 40" by (simp add: SubTaskMetas_def)
  show "distinct SubTaskMetas" by code_simp
  show "hd SubTaskMetas = ConvertProjectMeta" by (simp add: SubTaskMetas_def)
  show "kindOf ConvertProjectMeta = ConvertUnit" by simp
  show "familyOf ConvertProjectMeta = Project" by simp
  show "\<forall>u \<in> set SubTaskMetas. u \<noteq> ConvertProjectMeta \<longrightarrow>
         (\<exists>i j. place SubTaskMetas ConvertProjectMeta = Some i \<and> place SubTaskMetas u = Some j \<and> i < j)"
  proof (intro ballI impI)
    fix u assume "u \<in> set SubTaskMetas" "u \<noteq> ConvertProjectMeta"
    with place_others have "case place SubTaskMetas u of Some j \<Rightarrow> 0 < j | None \<Rightarrow> False" by blast
    then obtain j where "place SubTaskMetas u = Some j" "0 < j" by (auto split: option.splits)
    with place_first_three(1)
    show "\<exists>i j. place SubTaskMetas ConvertProjectMeta = Some i \<and> place SubTaskMetas u = Some j \<and> i < j"
      by blast
  qed
  show "\<forall>a \<in> set SubTaskMetas. \<forall>u \<in> set SubTaskMetas.
         familyOf a = Account \<and> kindOf a \<in> {CollectUnit, ExtractUnit}
         \<and> familyOf u \<noteq> Project \<and> familyOf u \<noteq> Account \<longrightarrow>
         (\<exists>i j. place SubTaskMetas a = Some i \<and> place SubTaskMetas u = Some j \<and> i < j)"
  proof (intro ballI impI)
    fix a u
    assume u: "u \<in> set SubTaskMetas"
      and h: "familyOf a = Account \<and> kindOf a \<in> {CollectUnit, ExtractUnit}
         \<and> familyOf u \<noteq> Project \<and> familyOf u \<noteq> Account"
    from h have "a = CollectAccountMeta \<or> a = ExtractAccountMeta"
      using account_units[of a] by blast
    then obtain i where i: "place SubTaskMetas a = Some i" "i \<le> 2"
      using place_first_three by auto
    from place_other_families u h
    have "case place SubTaskMetas u of Some j \<Rightarrow> 2 < j | None \<Rightarrow> False" by blast
    then obtain j where j: "place SubTaskMetas u = Some j" "2 < j" by (auto split: option.splits)
    from i(2) j(2) have "i < j" by simp
    with i(1) j(1)
    show "\<exists>i j. place SubTaskMetas a = Some i \<and> place SubTaskMetas u = Some j \<and> i < j"
      by blast
  qed
qed

theorem SubTaskMetas_order_witness:
  "CollectTaskMeta \<in> set SubTaskMetas \<and> CollectAccountMeta \<in> set SubTaskMetas
   \<and> (\<exists>i j. place SubTaskMetas ConvertProjectMeta = Some i \<and> place SubTaskMetas CollectTaskMeta = Some j \<and> i < j)
   \<and> (\<exists>i j. place SubTaskMetas CollectAccountMeta = Some i \<and> place SubTaskMetas CollectTaskMeta = Some j \<and> i < j)"
proof -
  have t: "CollectTaskMeta \<in> set SubTaskMetas" and a: "CollectAccountMeta \<in> set SubTaskMetas"
    by (simp_all add: SubTaskMetas_def)
  note o = SubTaskMetas_order
  from o have first: "\<forall>u \<in> set SubTaskMetas. u \<noteq> ConvertProjectMeta \<longrightarrow>
         (\<exists>i j. place SubTaskMetas ConvertProjectMeta = Some i \<and> place SubTaskMetas u = Some j \<and> i < j)"
    by (elim conjE)
  from bspec[OF first t]
  have 1: "\<exists>i j. place SubTaskMetas ConvertProjectMeta = Some i \<and> place SubTaskMetas CollectTaskMeta = Some j \<and> i < j"
    by simp
  from o have account: "\<forall>a \<in> set SubTaskMetas. \<forall>u \<in> set SubTaskMetas.
         familyOf a = Account \<and> kindOf a \<in> {CollectUnit, ExtractUnit}
         \<and> familyOf u \<noteq> Project \<and> familyOf u \<noteq> Account \<longrightarrow>
         (\<exists>i j. place SubTaskMetas a = Some i \<and> place SubTaskMetas u = Some j \<and> i < j)"
    by (elim conjE)
  from bspec[OF bspec[OF account a] t]
  have 2: "\<exists>i j. place SubTaskMetas CollectAccountMeta = Some i \<and> place SubTaskMetas CollectTaskMeta = Some j \<and> i < j"
    by simp
  from t a 1 2 show ?thesis by (intro conjI)
qed

end
